theory Spec2Isabelle
  imports Main "HOL-Library.Word"
begin

section \<open>The SFMesh exporter: byte stream, container and text wrapper\<close>

text \<open>
  A shallow embedding of \<^verbatim>\<open>src/sfmesh/__init__.py\<close>: the functions
  \<^verbatim>\<open>write_header\<close>, \<^verbatim>\<open>write_objects\<close>, \<^verbatim>\<open>write_sfmesh_raw\<close> and
  \<^verbatim>\<open>write_sfmesh\<close>, together with the parts of the Python standard library they
  call (\<^verbatim>\<open>struct.pack\<close>, \<^verbatim>\<open>str.encode\<close>, \<^verbatim>\<open>int.to_bytes\<close>,
  \<^verbatim>\<open>base64.b64encode\<close>). Every exception the Python can raise is a value
  of \<open>py_error\<close>; the \<^verbatim>\<open>print\<close> calls write to standard output only and are left out.
\<close>

subsection \<open>Bytes, Python strings and exceptions\<close>

type_synonym byte = "8 word"

text \<open>A Python \<^verbatim>\<open>str\<close> is a sequence of Unicode code points.\<close>

type_synonym py_str = "nat list"

definition str :: "string \<Rightarrow> py_str" where
  "str cs = map of_char cs"

definition ascii :: "string \<Rightarrow> byte list" where
  "ascii cs = map of_char cs"

datatype py_error =
    StructError
  | UnicodeEncodeError
  | IndexError
  | AttributeError
  | OverflowError
  | RuntimeError

subsection \<open>\<^verbatim>\<open>struct.pack\<close> and \<^verbatim>\<open>int.to_bytes\<close>\<close>

text \<open>The \<open>k\<close> low bytes of \<open>n\<close>, least significant first.\<close>

fun le_bytes :: "nat \<Rightarrow> nat \<Rightarrow> byte list" where
  "le_bytes 0 n = []"
| "le_bytes (Suc k) n = of_nat (n mod 256) # le_bytes k (n div 256)"

text \<open>
  \<^verbatim>\<open>struct.pack("<...", v1, ...)\<close> for the unsigned integer formats \<^verbatim>\<open>B\<close>,
  \<^verbatim>\<open>H\<close> and \<^verbatim>\<open>I\<close> (1, 2 and 4 bytes): the argument is a list of (width, value)
  pairs. Python 3 raises \<^verbatim>\<open>struct.error\<close> when a value does not fit its field
  (\<^verbatim>\<open>'H' format requires 0 <= number <= 65535\<close>); it does not wrap. The values packed
  here are lengths, counts and constants, hence never negative.
\<close>

fun struct_pack :: "(nat \<times> nat) list \<Rightarrow> py_error + byte list" where
  "struct_pack [] = Inr []"
| "struct_pack ((k, v) # fields) =
     (if v < 256 ^ k
      then (case struct_pack fields of
              Inl e \<Rightarrow> Inl e
            | Inr bs \<Rightarrow> Inr (le_bytes k v @ bs))
      else Inl StructError)"

text \<open>
  A 32-bit float is carried as its IEEE-754 single-precision bit pattern:
  Blender stores vector components as C floats, and \<^verbatim>\<open>struct.pack("<f", x)\<close>
  emits the four bytes of that pattern, least significant first.
\<close>

type_synonym float32 = "32 word"

definition pack_f :: "float32 \<Rightarrow> byte list" where
  "pack_f w = le_bytes 4 (unat w)"

text \<open>\<^verbatim>\<open>n.to_bytes(k, "little")\<close> raises \<^verbatim>\<open>OverflowError\<close> when \<open>n\<close> needs more than \<open>k\<close> bytes.\<close>

definition to_bytes :: "nat \<Rightarrow> nat \<Rightarrow> py_error + byte list" where
  "to_bytes n k = (if n < 256 ^ k then Inr (le_bytes k n) else Inl OverflowError)"

text \<open>The reader's side: the number a little-endian byte string stands for.\<close>

fun from_bytes :: "byte list \<Rightarrow> nat" where
  "from_bytes [] = 0"
| "from_bytes (b # bs) = unat b + 256 * from_bytes bs"

subsection \<open>\<^verbatim>\<open>str.encode("utf-8")\<close>\<close>

text \<open>
  One code point to its UTF-8 bytes. Surrogates (\<^verbatim>\<open>U+D800\<close> to \<^verbatim>\<open>U+DFFF\<close>) are
  not encodable: Python raises \<^verbatim>\<open>UnicodeEncodeError\<close>. A Python \<^verbatim>\<open>str\<close> holds no
  code point above \<^verbatim>\<open>U+10FFFF\<close>; the model answers with the same error there.
\<close>

definition utf8_char :: "nat \<Rightarrow> py_error + byte list" where
  "utf8_char c =
     (if c < 0x80 then Inr [of_nat c]
      else if c < 0x800 then Inr [of_nat (0xC0 + c div 64), of_nat (0x80 + c mod 64)]
      else if 0xD800 \<le> c \<and> c < 0xE000 then Inl UnicodeEncodeError
      else if c < 0x10000 then
        Inr [of_nat (0xE0 + c div 4096), of_nat (0x80 + c div 64 mod 64),
             of_nat (0x80 + c mod 64)]
      else if c < 0x110000 then
        Inr [of_nat (0xF0 + c div 262144), of_nat (0x80 + c div 4096 mod 64),
             of_nat (0x80 + c div 64 mod 64), of_nat (0x80 + c mod 64)]
      else Inl UnicodeEncodeError)"

fun encode_utf8 :: "py_str \<Rightarrow> py_error + byte list" where
  "encode_utf8 [] = Inr []"
| "encode_utf8 (c # cs) =
     (case utf8_char c of
        Inl e \<Rightarrow> Inl e
      | Inr bs \<Rightarrow> (case encode_utf8 cs of
                    Inl e \<Rightarrow> Inl e
                  | Inr rest \<Rightarrow> Inr (bs @ rest)))"

subsection \<open>The host's data: meshes and scene objects\<close>

text \<open>
  A mesh as the exporter reads it: \<^verbatim>\<open>mesh.vertices\<close>, \<^verbatim>\<open>mesh.loops\<close>,
  \<^verbatim>\<open>mesh.uv_layers.active\<close> (\<^verbatim>\<open>None\<close> when the mesh has no UV layer, else its
  \<^verbatim>\<open>data\<close>) and \<^verbatim>\<open>mesh.loop_triangles\<close>. A loop triangle is given by its
  \<^verbatim>\<open>loops\<close> attribute, an array of exactly three loop indices.
\<close>

record mesh_vertex =
  co :: "float32 \<times> float32 \<times> float32"
  normal :: "float32 \<times> float32 \<times> float32"

record mesh_loop =
  vertex_index :: nat
  tangent :: "float32 \<times> float32 \<times> float32"

record mesh_uv_loop =
  uv :: "float32 \<times> float32"

record mesh =
  vertices :: "mesh_vertex list"
  loops :: "mesh_loop list"
  uv_layers_active :: "mesh_uv_loop list option"
  loop_triangles :: "(nat \<times> nat \<times> nat) list"

text \<open>
  \<^verbatim>\<open>to_mesh()\<close> raises \<^verbatim>\<open>RuntimeError\<close> for an object that has no geometry,
  or returns \<^verbatim>\<open>None\<close>, or returns a mesh.
\<close>

datatype to_mesh_result = RaisesRuntimeError | ReturnsNone | ReturnsMesh mesh

text \<open>
  A scene object: \<^verbatim>\<open>obj.type\<close>, \<^verbatim>\<open>obj.mode\<close>, \<^verbatim>\<open>obj.name\<close>, what
  \<^verbatim>\<open>obj.to_mesh()\<close> gives, and what \<^verbatim>\<open>obj.evaluated_get(depsgraph).to_mesh()\<close>
  gives (the object with its modifiers applied). \<^verbatim>\<open>update_from_editmode\<close> and
  \<^verbatim>\<open>to_mesh_clear\<close> act inside the host only; \<open>to_mesh\<close> is the answer after the
  former.
\<close>

record obj =
  type :: string
  mode :: string
  name :: py_str
  to_mesh :: to_mesh_result
  evaluated_to_mesh :: to_mesh_result

definition mesh_owner_to_mesh :: "bool \<Rightarrow> obj \<Rightarrow> to_mesh_result" where
  "mesh_owner_to_mesh use_mesh_modifiers ob =
     (if use_mesh_modifiers then evaluated_to_mesh ob else to_mesh ob)"

subsection \<open>The exporter's state\<close>

text \<open>
  \<open>buffer\<close> is the \<^verbatim>\<open>io.BytesIO\<close> the passes write to; \<open>reports\<close> collects the
  calls of \<^verbatim>\<open>self.report\<close> (level and message). A function returns the exception
  it raised, if any, and the state at that moment.
\<close>

record state =
  buffer :: "byte list"
  reports :: "(string \<times> py_str) list"

definition buffer_write :: "byte list \<Rightarrow> state \<Rightarrow> state" where
  "buffer_write bs s = s\<lparr>buffer := buffer s @ bs\<rparr>"

definition report :: "string \<Rightarrow> py_str \<Rightarrow> state \<Rightarrow> state" where
  "report level msg s = s\<lparr>reports := reports s @ [(level, msg)]\<rparr>"

definition version_major :: nat where "version_major = 1"
definition version_minor :: nat where "version_minor = 0"
definition version_type :: nat where "version_type = 0"

subsection \<open>\<^verbatim>\<open>write_header\<close>\<close>

text \<open>
  The body of the loop over \<^verbatim>\<open>objects\<close> (lines 35 to 65). A \<^verbatim>\<open>return\<close> inside it
  leaves the function: the remaining objects are not visited.
\<close>

fun write_header_objects :: "bool \<Rightarrow> obj list \<Rightarrow> state \<Rightarrow> py_error option \<times> state" where
  "write_header_objects use_mesh_modifiers [] s = (None, s)"
| "write_header_objects use_mesh_modifiers (ob # objects) s =
     (case mesh_owner_to_mesh use_mesh_modifiers ob of
        RaisesRuntimeError \<Rightarrow> (None, s)
      | ReturnsNone \<Rightarrow> (None, s)
      | ReturnsMesh m \<Rightarrow>
          (let num_tris = length (loop_triangles m);
               s1 = (if num_tris \<ge> 2 ^ 16
                     then report ''WARNING''
                            (str ''Object '' @ name ob @ str '' has too many triangles!'') s
                     else s)
           in case encode_utf8 (name ob) of
                Inl e \<Rightarrow> (Some e, s1)
              | Inr obj_name \<Rightarrow>
                  (case struct_pack [(4, length obj_name)] of
                     Inl e \<Rightarrow> (Some e, s1)
                   | Inr name_length \<Rightarrow>
                       (let s2 = buffer_write obj_name (buffer_write name_length s1)
                        in case struct_pack [(2, num_tris)] of
                             Inl e \<Rightarrow> (Some e, s2)
                           | Inr triangle_count \<Rightarrow>
                               write_header_objects use_mesh_modifiers objects
                                 (buffer_write triangle_count s2)))))"

definition write_header :: "state \<Rightarrow> obj list \<Rightarrow> bool \<Rightarrow> py_error option \<times> state" where
  "write_header s objects use_mesh_modifiers =
     (case struct_pack [(1, version_major), (1, version_minor), (1, version_type)] of
        Inl e \<Rightarrow> (Some e, s)
      | Inr version \<Rightarrow>
          (let s1 = buffer_write version s
           in case struct_pack [(4, 0)] of
                Inl e \<Rightarrow> (Some e, s1)
              | Inr options \<Rightarrow>
                  (let s2 = buffer_write options s1;
                       num_objects = length (filter (\<lambda>ob. type ob = ''MESH'') objects)
                   in case struct_pack [(4, num_objects)] of
                        Inl e \<Rightarrow> (Some e, s2)
                      | Inr count \<Rightarrow>
                          write_header_objects use_mesh_modifiers objects (buffer_write count s2))))"

subsection \<open>\<^verbatim>\<open>write_objects\<close>\<close>

text \<open>Indexing a sequence: \<^verbatim>\<open>IndexError\<close> out of range. The indices are never negative.\<close>

definition getitem :: "'a list \<Rightarrow> nat \<Rightarrow> py_error + 'a" where
  "getitem xs i = (if i < length xs then Inr (xs ! i) else Inl IndexError)"

definition pack_3f :: "float32 \<times> float32 \<times> float32 \<Rightarrow> byte list" where
  "pack_3f v = (case v of (a, b, c) \<Rightarrow> pack_f a @ pack_f b @ pack_f c)"

definition pack_2f :: "float32 \<times> float32 \<Rightarrow> byte list" where
  "pack_2f v = (case v of (a, b) \<Rightarrow> pack_f a @ pack_f b)"

text \<open>The four writes of lines 113 to 126: position, normal, UV, tangent.\<close>

definition write_attributes ::
  "mesh_vertex \<Rightarrow> float32 \<times> float32 \<Rightarrow> mesh_loop \<Rightarrow> state \<Rightarrow> state" where
  "write_attributes vertex uv_co loop s =
     buffer_write (pack_3f (tangent loop))
       (buffer_write (pack_2f uv_co)
          (buffer_write (pack_3f (normal vertex))
             (buffer_write (pack_3f (co vertex)) s)))"

text \<open>
  The body of the inner loop (lines 109 to 126): the three lookups, then the writes.
  \<^verbatim>\<open>mesh.uv_layers.active\<close> is \<^verbatim>\<open>None\<close> for a mesh without UV layer, so reading
  its \<^verbatim>\<open>data\<close> raises \<^verbatim>\<open>AttributeError\<close>.
\<close>

definition write_loop :: "mesh \<Rightarrow> nat \<Rightarrow> state \<Rightarrow> py_error option \<times> state" where
  "write_loop m loop_index s =
     (case getitem (loops m) loop_index of
        Inl e \<Rightarrow> (Some e, s)
      | Inr loop \<Rightarrow>
          (case getitem (vertices m) (vertex_index loop) of
             Inl e \<Rightarrow> (Some e, s)
           | Inr vertex \<Rightarrow>
               (case uv_layers_active m of
                  None \<Rightarrow> (Some AttributeError, s)
                | Some data \<Rightarrow>
                    (case getitem data loop_index of
                       Inl e \<Rightarrow> (Some e, s)
                     | Inr uv_loop \<Rightarrow>
                         (None, write_attributes vertex (uv uv_loop) loop s)))))"

fun write_loops :: "mesh \<Rightarrow> nat list \<Rightarrow> state \<Rightarrow> py_error option \<times> state" where
  "write_loops m [] s = (None, s)"
| "write_loops m (loop_index # rest) s =
     (case write_loop m loop_index s of
        (Some e, s') \<Rightarrow> (Some e, s')
      | (None, s') \<Rightarrow> write_loops m rest s')"

text \<open>\<^verbatim>\<open>reversed(triangle.loops)\<close>.\<close>

definition reversed :: "nat \<times> nat \<times> nat \<Rightarrow> nat list" where
  "reversed t = (case t of (a, b, c) \<Rightarrow> [c, b, a])"

text \<open>The loop over \<^verbatim>\<open>mesh.loop_triangles\<close> (lines 107 to 126).\<close>

fun write_triangles ::
  "mesh \<Rightarrow> (nat \<times> nat \<times> nat) list \<Rightarrow> state \<Rightarrow> py_error option \<times> state" where
  "write_triangles m [] s = (None, s)"
| "write_triangles m (triangle # rest) s =
     (case write_loops m (reversed triangle) s of
        (Some e, s') \<Rightarrow> (Some e, s')
      | (None, s') \<Rightarrow> write_triangles m rest s')"

text \<open>
  Lines 91 to 102 (triangulation through \<^verbatim>\<open>bmesh\<close>, \<^verbatim>\<open>mesh.transform\<close>,
  \<^verbatim>\<open>flip_normals\<close>, \<^verbatim>\<open>calc_loop_triangles\<close>, \<^verbatim>\<open>calc_tangents\<close>) are the host's
  geometry code. They are the parameter \<open>geometry\<close>: from the global matrix, the object
  and its mesh to the mesh the triangle loop reads, or to the exception a host call
  raised (none of them is inside the \<^verbatim>\<open>try\<close>).
\<close>

fun write_objects_loop ::
  "('m \<Rightarrow> obj \<Rightarrow> mesh \<Rightarrow> py_error + mesh) \<Rightarrow> 'm \<Rightarrow> bool \<Rightarrow> obj list \<Rightarrow> state
     \<Rightarrow> py_error option \<times> state" where
  "write_objects_loop geometry global_matrix use_mesh_modifiers [] s = (None, s)"
| "write_objects_loop geometry global_matrix use_mesh_modifiers (ob # objects) s =
     (case mesh_owner_to_mesh use_mesh_modifiers ob of
        RaisesRuntimeError \<Rightarrow> (None, s)
      | ReturnsNone \<Rightarrow> (None, s)
      | ReturnsMesh m0 \<Rightarrow>
          (case geometry global_matrix ob m0 of
             Inl e \<Rightarrow> (Some e, s)
           | Inr m \<Rightarrow>
               (case write_triangles m (loop_triangles m) s of
                  (Some e, s') \<Rightarrow> (Some e, s')
                | (None, s') \<Rightarrow>
                    write_objects_loop geometry global_matrix use_mesh_modifiers objects s')))"

definition write_objects ::
  "('m \<Rightarrow> obj \<Rightarrow> mesh \<Rightarrow> py_error + mesh) \<Rightarrow> state \<Rightarrow> obj list \<Rightarrow> 'm \<Rightarrow> bool
     \<Rightarrow> py_error option \<times> state" where
  "write_objects geometry s objects global_matrix use_mesh_modifiers =
     write_objects_loop geometry global_matrix use_mesh_modifiers objects s"

subsection \<open>\<^verbatim>\<open>write_sfmesh_raw\<close>\<close>

definition write_sfmesh_raw ::
  "('m \<Rightarrow> obj \<Rightarrow> mesh \<Rightarrow> py_error + mesh) \<Rightarrow> state \<Rightarrow> obj list \<Rightarrow> 'm \<Rightarrow> bool
     \<Rightarrow> py_error option \<times> state" where
  "write_sfmesh_raw geometry s objects global_matrix use_mesh_modifiers =
     (case write_header s objects use_mesh_modifiers of
        (Some e, s') \<Rightarrow> (Some e, s')
      | (None, s') \<Rightarrow> write_objects geometry s' objects global_matrix use_mesh_modifiers)"

subsection \<open>\<^verbatim>\<open>base64.b64encode\<close> and its inverse\<close>

definition b64_alphabet :: "byte list" where
  "b64_alphabet =
     ascii ''ABCDEFGHIJKLMNOPQRSTUVWXYZabcdefghijklmnopqrstuvwxyz0123456789+/''"

definition b64_char :: "nat \<Rightarrow> byte" where
  "b64_char i = b64_alphabet ! i"

definition b64_pad :: byte where
  "b64_pad = 0x3D"

text \<open>Three bytes become four characters; a last group of one or two bytes is padded with \<^verbatim>\<open>=\<close>.\<close>

fun b64encode :: "byte list \<Rightarrow> byte list" where
  "b64encode [] = []"
| "b64encode [a] =
     [b64_char (unat a div 4), b64_char (unat a mod 4 * 16), b64_pad, b64_pad]"
| "b64encode [a, b] =
     [b64_char (unat a div 4), b64_char (unat a mod 4 * 16 + unat b div 16),
      b64_char (unat b mod 16 * 4), b64_pad]"
| "b64encode (a # b # c # rest) =
     b64_char (unat a div 4) # b64_char (unat a mod 4 * 16 + unat b div 16)
       # b64_char (unat b mod 16 * 4 + unat c div 64) # b64_char (unat c mod 64)
       # b64encode rest"

text \<open>The reader's side: the position of a character in the alphabet, and a strict decoder.\<close>

fun index_of :: "'a \<Rightarrow> 'a list \<Rightarrow> nat option" where
  "index_of x [] = None"
| "index_of x (y # ys) =
     (if x = y then Some 0 else (case index_of x ys of None \<Rightarrow> None | Some i \<Rightarrow> Some (Suc i)))"

definition b64_index :: "byte \<Rightarrow> nat option" where
  "b64_index c = index_of c b64_alphabet"

fun b64decode :: "byte list \<Rightarrow> byte list option" where
  "b64decode [] = Some []"
| "b64decode (c1 # c2 # c3 # c4 # rest) =
     (case b64_index c1 of
        None \<Rightarrow> None
      | Some i1 \<Rightarrow>
          (case b64_index c2 of
             None \<Rightarrow> None
           | Some i2 \<Rightarrow>
               if c3 = b64_pad \<and> c4 = b64_pad \<and> rest = []
               then Some [of_nat (i1 * 4 + i2 div 16)]
               else
                 (case b64_index c3 of
                    None \<Rightarrow> None
                  | Some i3 \<Rightarrow>
                      if c4 = b64_pad \<and> rest = []
                      then Some [of_nat (i1 * 4 + i2 div 16), of_nat (i2 mod 16 * 16 + i3 div 4)]
                      else
                        (case b64_index c4 of
                           None \<Rightarrow> None
                         | Some i4 \<Rightarrow>
                             (case b64decode rest of
                                None \<Rightarrow> None
                              | Some bs \<Rightarrow>
                                  Some (of_nat (i1 * 4 + i2 div 16)
                                        # of_nat (i2 mod 16 * 16 + i3 div 4)
                                        # of_nat (i3 mod 4 * 64 + i4) # bs))))))"
| "b64decode _ = None"

subsection \<open>\<^verbatim>\<open>write_sfmesh\<close>\<close>

text \<open>
  Lines 161 to 167: the size field of the compressed stream is overwritten. A slice
  never raises: \<^verbatim>\<open>lzc_string[:5]\<close> is \<open>take 5\<close> and \<^verbatim>\<open>lzc_string[13:]\<close> is \<open>drop 13\<close>.
\<close>

definition patch_size :: "byte list \<Rightarrow> nat \<Rightarrow> py_error + byte list" where
  "patch_size lzc_string uncompressed_size =
     (case to_bytes uncompressed_size 8 of
        Inl e \<Rightarrow> Inl e
      | Inr size_field \<Rightarrow> Inr (take 5 lzc_string @ size_field @ drop 13 lzc_string))"

text \<open>
  \<^verbatim>\<open>lzma.compress(..., format=lzma.FORMAT_ALONE, preset=9)\<close> is the parameter
  \<open>lzma_compress\<close>. The result is the exception raised, if any, the reports made, and
  the bytes written to \<^verbatim>\<open>filepath\<close> (\<open>None\<close> when the file was never opened). The buffer
  starts empty and is local to the call. Failures of the file system are not modelled.
\<close>

definition write_sfmesh ::
  "(byte list \<Rightarrow> byte list) \<Rightarrow> ('m \<Rightarrow> obj \<Rightarrow> mesh \<Rightarrow> py_error + mesh)
     \<Rightarrow> (string \<times> py_str) list \<Rightarrow> obj list \<Rightarrow> 'm \<Rightarrow> bool \<Rightarrow> bool
     \<Rightarrow> py_error option \<times> (string \<times> py_str) list \<times> byte list option" where
  "write_sfmesh lzma_compress geometry self_reports objects global_matrix use_mesh_modifiers
       write_raw_file =
     (case write_sfmesh_raw geometry \<lparr>buffer = [], reports = self_reports\<rparr> objects
             global_matrix use_mesh_modifiers of
        (Some e, s) \<Rightarrow> (Some e, reports s, None)
      | (None, s) \<Rightarrow>
          if write_raw_file then (None, reports s, Some (buffer s))
          else
            (let buffer_value = buffer s;
                 uncompressed_size = length buffer_value
             in case patch_size (lzma_compress buffer_value) uncompressed_size of
                  Inl e \<Rightarrow> (Some e, reports s, None)
                | Inr lzc_string \<Rightarrow>
                    (let b64_string = b64encode lzc_string
                     in (None, reports s,
                         Some (ascii (''return '' @ [CHR 0x22]) @ b64_string @ ascii [CHR 0x22])))))"

subsection \<open>Vocabulary of the statements\<close>

text \<open>
  What follows is not exporter code: these are the bytes and the conditions the theorems
  speak about. A loop index is valid when the three lookups of lines 109 to 112 succeed;
  \<open>corner_bytes\<close> is then the attribute record of that triangle corner.
\<close>

definition valid_loop :: "mesh \<Rightarrow> nat \<Rightarrow> bool" where
  "valid_loop m i \<longleftrightarrow>
     i < length (loops m) \<and> vertex_index (loops m ! i) < length (vertices m)
     \<and> (case uv_layers_active m of None \<Rightarrow> False | Some data \<Rightarrow> i < length data)"

definition corner_bytes :: "mesh \<Rightarrow> nat \<Rightarrow> byte list" where
  "corner_bytes m i =
     (let loop = loops m ! i; vertex = vertices m ! vertex_index loop
      in pack_3f (co vertex) @ pack_3f (normal vertex)
         @ (case uv_layers_active m of None \<Rightarrow> [] | Some data \<Rightarrow> pack_2f (uv (data ! i)))
         @ pack_3f (tangent loop))"

definition valid_triangle :: "mesh \<Rightarrow> nat \<times> nat \<times> nat \<Rightarrow> bool" where
  "valid_triangle m t = (case t of (a, b, c) \<Rightarrow> valid_loop m a \<and> valid_loop m b \<and> valid_loop m c)"

text \<open>The preamble of the stream: version, options and object count.\<close>

definition preamble :: "nat \<Rightarrow> byte list" where
  "preamble num_objects = [1, 0, 0] @ [0, 0, 0, 0] @ le_bytes 4 num_objects"

definition mesh_count :: "obj list \<Rightarrow> nat" where
  "mesh_count objects = length (filter (\<lambda>ob. type ob = ''MESH'') objects)"

text \<open>Mesh resolution fails: \<^verbatim>\<open>to_mesh()\<close> raises or returns \<^verbatim>\<open>None\<close>.\<close>

definition resolution_fails :: "bool \<Rightarrow> obj \<Rightarrow> bool" where
  "resolution_fails use_mesh_modifiers ob =
     (case mesh_owner_to_mesh use_mesh_modifiers ob of
        RaisesRuntimeError \<Rightarrow> True
      | ReturnsNone \<Rightarrow> True
      | ReturnsMesh m \<Rightarrow> False)"

text \<open>
  An object whose metadata the header pass writes without exception, and the metadata
  block written for it: name length, name, triangle count.
\<close>

definition header_ok :: "bool \<Rightarrow> obj \<Rightarrow> bool" where
  "header_ok use_mesh_modifiers ob =
     (case mesh_owner_to_mesh use_mesh_modifiers ob of
        ReturnsMesh m \<Rightarrow>
          length (loop_triangles m) < 65536
          \<and> (case encode_utf8 (name ob) of
                Inl e \<Rightarrow> False
              | Inr obj_name \<Rightarrow> length obj_name < 4294967296)
      | _ \<Rightarrow> False)"

definition header_block :: "bool \<Rightarrow> obj \<Rightarrow> byte list" where
  "header_block use_mesh_modifiers ob =
     (case mesh_owner_to_mesh use_mesh_modifiers ob of
        ReturnsMesh m \<Rightarrow>
          (case encode_utf8 (name ob) of
             Inl e \<Rightarrow> []
           | Inr obj_name \<Rightarrow>
               le_bytes 4 (length obj_name) @ obj_name @ le_bytes 2 (length (loop_triangles m)))
      | _ \<Rightarrow> [])"

text \<open>The same for the body pass: the triangles of the mesh the host's geometry code returns.\<close>

definition body_ok ::
  "('m \<Rightarrow> obj \<Rightarrow> mesh \<Rightarrow> py_error + mesh) \<Rightarrow> 'm \<Rightarrow> bool \<Rightarrow> obj \<Rightarrow> bool" where
  "body_ok geometry global_matrix use_mesh_modifiers ob =
     (case mesh_owner_to_mesh use_mesh_modifiers ob of
        ReturnsMesh m0 \<Rightarrow>
          (case geometry global_matrix ob m0 of
             Inl e \<Rightarrow> False
           | Inr m \<Rightarrow> list_all (valid_triangle m) (loop_triangles m))
      | _ \<Rightarrow> False)"

text \<open>The three corners of a triangle in the order \<open>a\<close>, \<open>b\<close>, \<open>c\<close> given.\<close>

definition corners :: "mesh \<Rightarrow> nat \<Rightarrow> nat \<Rightarrow> nat \<Rightarrow> byte list" where
  "corners m a b c = corner_bytes m a @ corner_bytes m b @ corner_bytes m c"

definition body_block ::
  "('m \<Rightarrow> obj \<Rightarrow> mesh \<Rightarrow> py_error + mesh) \<Rightarrow> 'm \<Rightarrow> bool \<Rightarrow> obj \<Rightarrow> byte list" where
  "body_block geometry global_matrix use_mesh_modifiers ob =
     (case mesh_owner_to_mesh use_mesh_modifiers ob of
        ReturnsMesh m0 \<Rightarrow>
          (case geometry global_matrix ob m0 of
             Inl e \<Rightarrow> []
           | Inr m \<Rightarrow> concat (map (\<lambda>(a, b, c). corners m c b a) (loop_triangles m)))
      | _ \<Rightarrow> [])"

text \<open>
  The stream of a list of objects that all pass both loops, under a given object count:
  preamble, metadata blocks, body blocks.
\<close>

definition raw_stream ::
  "('m \<Rightarrow> obj \<Rightarrow> mesh \<Rightarrow> py_error + mesh) \<Rightarrow> 'm \<Rightarrow> bool \<Rightarrow> nat \<Rightarrow> obj list \<Rightarrow> byte list" where
  "raw_stream geometry global_matrix use_mesh_modifiers num_objects objects =
     preamble num_objects
     @ concat (map (header_block use_mesh_modifiers) objects)
     @ concat (map (body_block geometry global_matrix use_mesh_modifiers) objects)"

text \<open>
  A compressed stream with bytes 5 to 12 replaced by a length, and the text between the
  prefix and the closing quote of a packed file.
\<close>

definition patched_stream :: "byte list \<Rightarrow> nat \<Rightarrow> byte list" where
  "patched_stream lzc n = take 5 lzc @ le_bytes 8 n @ drop 13 lzc"

definition payload :: "byte list \<Rightarrow> byte list" where
  "payload file = butlast (drop 8 file)"

subsection \<open>Sample data\<close>

text \<open>
  A mesh of \<open>n\<close> triangles over three loops and two vertices, an object around it, a
  geometry step that leaves the mesh as it is, and a stand-in for the compressor: a
  13-byte header with the size field all ones, then the data as they are.
\<close>

definition sample_mesh :: "nat \<Rightarrow> mesh" where
  "sample_mesh n =
     \<lparr>vertices = [\<lparr>co = (1, 2, 3), normal = (4, 5, 6)\<rparr>, \<lparr>co = (7, 8, 9), normal = (10, 11, 12)\<rparr>],
      loops = [\<lparr>vertex_index = 0, tangent = (13, 14, 15)\<rparr>,
               \<lparr>vertex_index = 1, tangent = (16, 17, 18)\<rparr>,
               \<lparr>vertex_index = 0, tangent = (19, 20, 21)\<rparr>],
      uv_layers_active = Some [\<lparr>uv = (22, 23)\<rparr>, \<lparr>uv = (24, 25)\<rparr>, \<lparr>uv = (26, 27)\<rparr>],
      loop_triangles = replicate n (0, 1, 2)\<rparr>"

definition sample_object :: "string \<Rightarrow> string \<Rightarrow> to_mesh_result \<Rightarrow> obj" where
  "sample_object ty nm r =
     \<lparr>type = ty, mode = ''OBJECT'', name = str nm, to_mesh = r, evaluated_to_mesh = r\<rparr>"

definition keep_mesh :: "unit \<Rightarrow> obj \<Rightarrow> mesh \<Rightarrow> py_error + mesh" where
  "keep_mesh g ob m = Inr m"

text \<open>
  Sample scene objects: a cube of 12 triangles, a curve that converts to a mesh of one
  triangle, a light (\<^verbatim>\<open>to_mesh\<close> raises for it), and a mesh of 65536 triangles.
\<close>

definition cube :: obj where
  "cube = sample_object ''MESH'' ''Cube'' (ReturnsMesh (sample_mesh 12))"

definition curve :: obj where
  "curve = sample_object ''CURVE'' ''Curve'' (ReturnsMesh (sample_mesh 1))"

definition light :: obj where
  "light = sample_object ''LIGHT'' ''Light'' RaisesRuntimeError"

definition big :: obj where
  "big = sample_object ''MESH'' ''Big'' (ReturnsMesh (sample_mesh 65536))"

definition sample_lzma :: "byte list \<Rightarrow> byte list" where
  "sample_lzma bs = [0x5D, 0, 0, 0x80, 0] @ replicate 8 0xFF @ bs"

section \<open>Properties\<close>

subsection \<open>Bytes and base64\<close>

lemma length_le_bytes [simp]: "length (le_bytes k n) = k"
  by (induction k arbitrary: n) auto

lemma from_bytes_le_bytes: "n < 256 ^ k \<Longrightarrow> from_bytes (le_bytes k n) = n"
proof (induction k arbitrary: n)
  case 0
  then show ?case by simp
next
  case (Suc k)
  have "n div 256 < 256 ^ k" using Suc.prems by (simp add: less_mult_imp_div_less mult.commute)
  then have "from_bytes (le_bytes k (n div 256)) = n div 256" by (rule Suc.IH)
  moreover have "unat (of_nat (n mod 256) :: byte) = n mod 256"
    by (simp add: unat_of_nat)
  ultimately show ?case by simp
qed

lemma length_pack_f [simp]: "length (pack_f w) = 4"
  by (simp add: pack_f_def)

lemma from_bytes_pack_f: "from_bytes (pack_f w) = unat w"
proof -
  have "unat w < 2 ^ 32" using unsigned_less [of w] by simp
  then have "unat w < 256 ^ 4" by simp
  then show ?thesis unfolding pack_f_def by (rule from_bytes_le_bytes)
qed

lemma b64_alphabet_length: "length b64_alphabet = 64"
  by (simp add: b64_alphabet_def ascii_def)

lemma b64_alphabet_distinct: "distinct b64_alphabet"
  by (simp add: b64_alphabet_def ascii_def)

lemma b64_pad_notin: "b64_pad \<notin> set b64_alphabet"
  by (simp add: b64_alphabet_def ascii_def b64_pad_def)

lemma index_of_nth: "distinct xs \<Longrightarrow> i < length xs \<Longrightarrow> index_of (xs ! i) xs = Some i"
proof (induction xs arbitrary: i)
  case Nil
  then show ?case by simp
next
  case (Cons y ys)
  show ?case
  proof (cases i)
    case 0
    then show ?thesis by simp
  next
    case (Suc j)
    with Cons.prems have "j < length ys" "distinct ys" "ys ! j \<noteq> y" by auto
    with Cons.IH Suc show ?thesis by simp
  qed
qed

lemma b64_index_char: "i < 64 \<Longrightarrow> b64_index (b64_char i) = Some i"
  unfolding b64_index_def b64_char_def
  by (rule index_of_nth) (simp_all add: b64_alphabet_distinct b64_alphabet_length)

lemma b64_char_not_pad: "i < 64 \<Longrightarrow> b64_char i \<noteq> b64_pad"
  unfolding b64_char_def using b64_pad_notin b64_alphabet_length
  by (metis nth_mem)

lemma b64_oct1: "(a::nat) div 4 * 4 + a mod 4 * 16 div 16 = a"
  by simp

lemma b64_oct2: "b < 256 \<Longrightarrow> (a::nat) div 4 * 4 + (a mod 4 * 16 + b div 16) div 16 = a"
  by (simp add: div_add1_eq)

lemma b64_oct3: "b < 256 \<Longrightarrow> ((a::nat) mod 4 * 16 + b div 16) mod 16 * 16 + b mod 16 * 4 div 4 = b"
  by (simp add: mod_add_eq flip: mod_add_eq)

lemma b64_sext1: "(a::nat) < 256 \<Longrightarrow> a div 4 < 64"
  by simp

lemma b64_sext2: "(a::nat) mod 4 * 16 < 64"
proof -
  have "a mod 4 < 4" by simp
  then show ?thesis by linarith
qed

lemma b64_sext3: "(b::nat) < 256 \<Longrightarrow> (a::nat) mod 4 * 16 + b div 16 < 64"
proof -
  assume "b < 256"
  then have "b div 16 < 16" by simp
  moreover have "a mod 4 < 4" by simp
  ultimately show ?thesis by linarith
qed

lemma b64_sext4: "(b::nat) mod 16 * 4 < 64"
proof -
  have "b mod 16 < 16" by simp
  then show ?thesis by linarith
qed

lemma b64_sext5: "(c::nat) < 256 \<Longrightarrow> (b::nat) mod 16 * 4 + c div 64 < 64"
proof -
  assume "c < 256"
  then have "c div 64 < 4" by simp
  moreover have "b mod 16 < 16" by simp
  ultimately show ?thesis by linarith
qed

lemma b64_sext6: "(c::nat) mod 64 < 64"
  by simp

lemma shift_div: "(y::nat) < k \<Longrightarrow> (x * k + y) div k = x"
  by simp

lemma shift_mod: "(y::nat) < k \<Longrightarrow> (x * k + y) mod k = y"
  by simp

lemma b64_oct4:
  assumes "b < 256" "c < 256"
  shows "((a::nat) mod 4 * 16 + b div 16) mod 16 * 16 + (b mod 16 * 4 + c div 64) div 4 = b"
proof -
  from assms have 1: "b div 16 < 16" and 2: "c div 64 < 4" by simp_all
  have "(a mod 4 * 16 + b div 16) mod 16 = b div 16" using 1 by (rule shift_mod)
  moreover have "(b mod 16 * 4 + c div 64) div 4 = b mod 16" using 2 by (rule shift_div)
  ultimately show ?thesis by simp
qed

lemma b64_oct5:
  assumes "c < 256"
  shows "((b::nat) mod 16 * 4 + c div 64) mod 4 * 64 + c mod 64 = c"
proof -
  from assms have 2: "c div 64 < 4" by simp
  have "(b mod 16 * 4 + c div 64) mod 4 = c div 64" using 2 by (rule shift_mod)
  then show ?thesis by simp
qed

lemma unat_byte_less: "unat (a :: byte) < 256"
  using unsigned_less [of a] by simp

lemma byte_of_nat_unat: "of_nat (unat (a :: byte)) = a"
  by simp

lemma b64decode_pad2:
  assumes "i1 < 64" "i2 < 64"
  shows "b64decode [b64_char i1, b64_char i2, b64_pad, b64_pad] = Some [of_nat (i1 * 4 + i2 div 16)]"
  using assms by (simp add: b64_index_char del: of_nat_add of_nat_mult)

lemma b64decode_pad1:
  assumes "i1 < 64" "i2 < 64" "i3 < 64"
  shows "b64decode [b64_char i1, b64_char i2, b64_char i3, b64_pad] =
    Some [of_nat (i1 * 4 + i2 div 16), of_nat (i2 mod 16 * 16 + i3 div 4)]"
  using assms by (simp add: b64_index_char b64_char_not_pad del: of_nat_add of_nat_mult)

lemma b64decode_full:
  assumes "i1 < 64" "i2 < 64" "i3 < 64" "i4 < 64"
  shows "b64decode (b64_char i1 # b64_char i2 # b64_char i3 # b64_char i4 # rest) =
    (case b64decode rest of
       None \<Rightarrow> None
     | Some bs \<Rightarrow> Some (of_nat (i1 * 4 + i2 div 16) # of_nat (i2 mod 16 * 16 + i3 div 4)
                       # of_nat (i3 mod 4 * 64 + i4) # bs))"
  using assms by (simp add: b64_index_char b64_char_not_pad del: of_nat_add of_nat_mult)

lemma b64decode_b64encode: "b64decode (b64encode xs) = Some xs"
proof (induction xs rule: b64encode.induct)
  case 1
  show ?case by simp
next
  case (2 a)
  note la = unat_byte_less [of a]
  have "b64decode (b64encode [a]) = Some [of_nat (unat a div 4 * 4 + unat a mod 4 * 16 div 16)]"
    unfolding b64encode.simps by (rule b64decode_pad2 [OF b64_sext1 [OF la] b64_sext2])
  also have "unat a div 4 * 4 + unat a mod 4 * 16 div 16 = unat a" by (rule b64_oct1)
  finally show ?case by simp
next
  case (3 a b)
  note la = unat_byte_less [of a] and lb = unat_byte_less [of b]
  have "b64decode (b64encode [a, b]) =
    Some [of_nat (unat a div 4 * 4 + (unat a mod 4 * 16 + unat b div 16) div 16),
          of_nat ((unat a mod 4 * 16 + unat b div 16) mod 16 * 16 + unat b mod 16 * 4 div 4)]"
    unfolding b64encode.simps
    by (rule b64decode_pad1 [OF b64_sext1 [OF la] b64_sext3 [OF lb] b64_sext4])
  then show ?case
    by (simp only: b64_oct2 [OF lb] b64_oct3 [OF lb] byte_of_nat_unat)
next
  case (4 a b c rest)
  note la = unat_byte_less [of a] and lb = unat_byte_less [of b] and lc = unat_byte_less [of c]
  have "b64decode (b64encode (a # b # c # rest)) =
    (case b64decode (b64encode rest) of
       None \<Rightarrow> None
     | Some bs \<Rightarrow>
         Some (of_nat (unat a div 4 * 4 + (unat a mod 4 * 16 + unat b div 16) div 16)
               # of_nat ((unat a mod 4 * 16 + unat b div 16) mod 16 * 16
                         + (unat b mod 16 * 4 + unat c div 64) div 4)
               # of_nat ((unat b mod 16 * 4 + unat c div 64) mod 4 * 64 + unat c mod 64) # bs))"
    unfolding b64encode.simps
    by (rule b64decode_full [OF b64_sext1 [OF la] b64_sext3 [OF lb] b64_sext5 [OF lc] b64_sext6])
  then show ?case
    by (simp only: b64_oct2 [OF lb] b64_oct4 [OF lb lc] b64_oct5 [OF lc] byte_of_nat_unat
        "4.IH" option.case)
qed

subsection \<open>The vertex record\<close>

lemma buffer_write_twice: "buffer_write b (buffer_write a s) = buffer_write (a @ b) s"
  by (simp add: buffer_write_def)

lemma buffer_write_nil: "buffer_write [] s = s"
  by (simp add: buffer_write_def)

lemma length_pack_3f: "length (pack_3f v) = 12"
  by (cases v) (simp add: pack_3f_def)

lemma length_pack_2f: "length (pack_2f v) = 8"
  by (cases v) (simp add: pack_2f_def)


subsection \<open>Triangles, header and body loops\<close>

lemma le_bytes_numeral:
  "le_bytes (numeral k) n = of_nat (n mod 256) # le_bytes (pred_numeral k) (n div 256)"
proof -
  have "numeral k = Suc (pred_numeral k)" by (rule numeral_eq_Suc)
  then show ?thesis by (simp only: le_bytes.simps)
qed

lemma le_bytes_one: "le_bytes 1 n = [of_nat (n mod 256)]"
proof -
  have "le_bytes (Suc 0) n = [of_nat (n mod 256)]" by (simp only: le_bytes.simps)
  then show ?thesis by (simp only: One_nat_def)
qed

lemma write_loop_valid:
  assumes "valid_loop m i"
  shows "write_loop m i s = (None, buffer_write (corner_bytes m i) s)"
proof -
  from assms obtain data where d: "uv_layers_active m = Some data" "i < length data"
    and l: "i < length (loops m)" and v: "vertex_index (loops m ! i) < length (vertices m)"
    by (auto simp: valid_loop_def split: option.splits)
  show ?thesis
    by (simp add: write_loop_def getitem_def l v d write_attributes_def corner_bytes_def
        buffer_write_def Let_def)
qed

lemma length_corner_bytes:
  assumes "valid_loop m i"
  shows "length (corner_bytes m i) = 44"
proof -
  from assms obtain data where d: "uv_layers_active m = Some data"
    by (auto simp: valid_loop_def split: option.splits)
  show ?thesis
    by (simp add: corner_bytes_def Let_def d length_pack_3f length_pack_2f)
qed

lemma write_loops_reversed:
  assumes "valid_loop m a" "valid_loop m b" "valid_loop m c"
  shows "write_loops m (reversed (a, b, c)) s = (None, buffer_write (corners m c b a) s)"
  by (simp add: reversed_def write_loop_valid assms buffer_write_twice corners_def)

lemma length_corners:
  assumes "valid_loop m a" "valid_loop m b" "valid_loop m c"
  shows "length (corners m c b a) = 132"
  by (simp add: corners_def length_corner_bytes assms)

lemma write_triangles_valid:
  assumes "list_all (valid_triangle m) ts"
  shows "write_triangles m ts s =
    (None, buffer_write (concat (map (\<lambda>(a, b, c). corners m c b a) ts)) s)"
  using assms
proof (induction ts arbitrary: s)
  case Nil
  show ?case by (simp add: buffer_write_nil)
next
  case (Cons t ts)
  obtain a b c where t: "t = (a, b, c)" by (cases t)
  from Cons.prems t have vt: "valid_triangle m (a, b, c)"
    and rest: "list_all (valid_triangle m) ts"
    by simp_all
  from vt have v: "valid_loop m a" "valid_loop m b" "valid_loop m c"
    by (simp_all add: valid_triangle_def)
  show ?case
    by (simp add: t write_loops_reversed [OF v] Cons.IH [OF rest] buffer_write_twice)
qed

lemma length_triangles_bytes:
  assumes "list_all (valid_triangle m) ts"
  shows "length (concat (map (\<lambda>(a, b, c). corners m c b a) ts)) = 132 * length ts"
  using assms
proof (induction ts)
  case Nil
  show ?case by simp
next
  case (Cons t ts)
  obtain a b c where t: "t = (a, b, c)" by (cases t)
  from Cons.prems t have vt: "valid_triangle m (a, b, c)"
    and rest: "list_all (valid_triangle m) ts"
    by simp_all
  from vt have v: "valid_loop m a" "valid_loop m b" "valid_loop m c"
    by (simp_all add: valid_triangle_def)
  show ?case
    by (simp add: t length_corners [OF v] Cons.IH [OF rest])
qed


lemma valid_loop_sample: "valid_loop (sample_mesh n) 0" "valid_loop (sample_mesh n) 1"
  "valid_loop (sample_mesh n) 2"
  by (simp_all add: valid_loop_def sample_mesh_def)


lemma write_header_objects_step:
  assumes "header_ok umm ob"
  shows "write_header_objects umm (ob # rest) s =
    write_header_objects umm rest (buffer_write (header_block umm ob) s)"
proof -
  from assms obtain m nm where m: "mesh_owner_to_mesh umm ob = ReturnsMesh m"
    and t: "length (loop_triangles m) < 65536"
    and n: "encode_utf8 (name ob) = Inr nm" "length nm < 4294967296"
    by (auto simp: header_ok_def split: to_mesh_result.splits sum.splits)
  from t have t': "\<not> 65536 \<le> length (loop_triangles m)" by simp
  show ?thesis
    by (simp add: m t t' n header_block_def Let_def buffer_write_twice)
qed

lemma write_header_objects_ok:
  assumes "list_all (header_ok umm) pre"
  shows "write_header_objects umm (pre @ rest) s =
    write_header_objects umm rest (buffer_write (concat (map (header_block umm) pre)) s)"
  using assms
proof (induction pre arbitrary: s)
  case Nil
  show ?case by (simp add: buffer_write_nil)
next
  case (Cons ob pre)
  from Cons.prems have h: "header_ok umm ob" and r: "list_all (header_ok umm) pre"
    by simp_all
  show ?case
    by (simp add: write_header_objects_step [OF h] Cons.IH [OF r] buffer_write_twice
        del: write_header_objects.simps)
qed

lemma write_header_objects_fails:
  assumes "resolution_fails umm bad"
  shows "write_header_objects umm (bad # post) s = (None, s)"
  using assms by (simp add: resolution_fails_def split: to_mesh_result.splits)

lemma write_header_preamble:
  assumes "mesh_count objects < 4294967296"
  shows "write_header s objects umm =
    write_header_objects umm objects (buffer_write (preamble (mesh_count objects)) s)"
proof -
  have c: "length (filter (\<lambda>ob. type ob = ''MESH'') objects) < 4294967296"
    using assms by (simp add: mesh_count_def)
  have v: "struct_pack [(1, version_major), (1, version_minor), (1, version_type)] = Inr [1, 0, 0]"
    by (simp add: version_major_def version_minor_def version_type_def le_bytes_one)
  have z: "struct_pack [(4, 0)] = Inr [0, 0, 0, 0]"
    by (simp add: le_bytes_numeral)
  show ?thesis
    unfolding write_header_def v z
    by (simp add: Let_def c buffer_write_twice preamble_def mesh_count_def)
qed

lemma write_objects_loop_step:
  assumes "body_ok geometry gm umm ob"
  shows "write_objects_loop geometry gm umm (ob # rest) s =
    write_objects_loop geometry gm umm rest (buffer_write (body_block geometry gm umm ob) s)"
proof -
  from assms obtain m0 m where m: "mesh_owner_to_mesh umm ob = ReturnsMesh m0"
    and g: "geometry gm ob m0 = Inr m"
    and t: "list_all (valid_triangle m) (loop_triangles m)"
    by (auto simp: body_ok_def split: to_mesh_result.splits sum.splits)
  show ?thesis
    by (simp add: m g body_block_def write_triangles_valid [OF t])
qed

lemma write_objects_loop_ok:
  assumes "list_all (body_ok geometry gm umm) pre"
  shows "write_objects_loop geometry gm umm (pre @ rest) s =
    write_objects_loop geometry gm umm rest
      (buffer_write (concat (map (body_block geometry gm umm) pre)) s)"
  using assms
proof (induction pre arbitrary: s)
  case Nil
  show ?case by (simp add: buffer_write_nil)
next
  case (Cons ob pre)
  from Cons.prems have h: "body_ok geometry gm umm ob"
    and r: "list_all (body_ok geometry gm umm) pre"
    by simp_all
  show ?case
    by (simp add: write_objects_loop_step [OF h] Cons.IH [OF r] buffer_write_twice
        del: write_objects_loop.simps)
qed

lemma write_objects_loop_fails:
  assumes "resolution_fails umm bad"
  shows "write_objects_loop geometry gm umm (bad # post) s = (None, s)"
  using assms by (simp add: resolution_fails_def split: to_mesh_result.splits)

lemma encode_utf8_Cube: "encode_utf8 (str ''Cube'') = Inr [0x43, 0x75, 0x62, 0x65]"
  by (simp add: str_def utf8_char_def)

lemma length_body_block:
  assumes "mesh_owner_to_mesh umm ob = ReturnsMesh m0" "geometry gm ob m0 = Inr m"
    "list_all (valid_triangle m) (loop_triangles m)"
  shows "length (body_block geometry gm umm ob) = 132 * length (loop_triangles m)"
  by (simp add: body_block_def assms(1,2) length_triangles_bytes [OF assms(3)])

text \<open>
  Claim C7. A scene of one object of type \<^verbatim>\<open>MESH\<close> named \<^verbatim>\<open>Cube\<close> whose mesh has
  12 triangles gives the raw buffer \<^verbatim>\<open>01 00 00 00 00 00 00 01 00 00 00\<close>, then
  \<^verbatim>\<open>04 00 00 00\<close>, then the four bytes of \<^verbatim>\<open>Cube\<close>, then \<^verbatim>\<open>0C 00\<close>, then a body
  of exactly 1584 bytes.
\<close>

theorem cube_scenario:
  assumes "type ob = ''MESH''" and "name ob = str ''Cube''"
    and "mesh_owner_to_mesh umm ob = ReturnsMesh m0"
    and "length (loop_triangles m0) = 12"
    and "geometry gm ob m0 = Inr m"
    and "length (loop_triangles m) = 12"
    and "list_all (valid_triangle m) (loop_triangles m)"
  shows "write_sfmesh_raw geometry \<lparr>buffer = [], reports = rs\<rparr> [ob] gm umm =
      (None, \<lparr>buffer = [0x01, 0x00, 0x00, 0x00, 0x00, 0x00, 0x00, 0x01, 0x00, 0x00, 0x00]
                 @ [0x04, 0x00, 0x00, 0x00] @ [0x43, 0x75, 0x62, 0x65] @ [0x0C, 0x00]
                 @ body_block geometry gm umm ob,
              reports = rs\<rparr>)
    \<and> length (body_block geometry gm umm ob) = 1584"
proof -
  have hok: "header_ok umm ob"
    by (simp add: header_ok_def assms(2,3,4) encode_utf8_Cube)
  have bok: "body_ok geometry gm umm ob"
    by (simp add: body_ok_def assms(3,5,7))
  have hb: "header_block umm ob = [0x04, 0x00, 0x00, 0x00] @ [0x43, 0x75, 0x62, 0x65] @ [0x0C, 0x00]"
    by (simp add: header_block_def assms(2,3,4) encode_utf8_Cube le_bytes_numeral)
  have cnt: "mesh_count [ob] = 1"
    by (simp add: mesh_count_def assms(1))
  have pre: "preamble (Suc 0) = [0x01, 0x00, 0x00, 0x00, 0x00, 0x00, 0x00, 0x01, 0x00, 0x00, 0x00]"
    by (simp add: preamble_def le_bytes_numeral)
  have h: "write_header \<lparr>buffer = [], reports = rs\<rparr> [ob] umm =
      (None, buffer_write (header_block umm ob)
               (buffer_write (preamble 1) \<lparr>buffer = [], reports = rs\<rparr>))"
    using write_header_preamble [of "[ob]" "\<lparr>buffer = [], reports = rs\<rparr>" umm]
      write_header_objects_step [OF hok, of "[]"]
    by (simp add: cnt del: write_header_objects.simps(2))
  have b: "write_objects geometry s [ob] gm umm =
      (None, buffer_write (body_block geometry gm umm ob) s)" for s
    using write_objects_loop_step [OF bok, of "[]" s]
    by (simp add: write_objects_def del: write_objects_loop.simps(2))
  have "write_sfmesh_raw geometry \<lparr>buffer = [], reports = rs\<rparr> [ob] gm umm =
      (None, buffer_write (body_block geometry gm umm ob)
               (buffer_write (header_block umm ob)
                  (buffer_write (preamble 1) \<lparr>buffer = [], reports = rs\<rparr>)))"
    by (simp add: write_sfmesh_raw_def h b)
  then have 1: "write_sfmesh_raw geometry \<lparr>buffer = [], reports = rs\<rparr> [ob] gm umm =
      (None, \<lparr>buffer = [0x01, 0x00, 0x00, 0x00, 0x00, 0x00, 0x00, 0x01, 0x00, 0x00, 0x00]
                 @ [0x04, 0x00, 0x00, 0x00] @ [0x43, 0x75, 0x62, 0x65] @ [0x0C, 0x00]
                 @ body_block geometry gm umm ob,
              reports = rs\<rparr>)"
    by (simp add: buffer_write_def hb pre)
  have 2: "length (body_block geometry gm umm ob) = 1584"
    using length_body_block [where geometry = geometry and gm = gm, OF assms(3,5,7)] by (simp add: assms(6))
  from 1 2 show ?thesis by (rule conjI)
qed

lemma list_all_replicate: "P x \<Longrightarrow> list_all P (replicate n x)"
  by (induction n) simp_all

lemma valid_triangle_sample: "list_all (valid_triangle (sample_mesh n)) (loop_triangles (sample_mesh n))"
proof -
  have "valid_triangle (sample_mesh n) (0, 1, 2)"
    by (simp add: valid_triangle_def valid_loop_sample del: One_nat_def)
  then have "list_all (valid_triangle (sample_mesh n)) (replicate n (0, 1, 2))"
    by (rule list_all_replicate)
  then show ?thesis by (simp add: sample_mesh_def)
qed

text \<open>
  The scenario at the sample mesh with 12 triangles.
\<close>

theorem cube_scenario_witness:
  "type (sample_object ''MESH'' ''Cube'' (ReturnsMesh (sample_mesh 12))) = ''MESH''
   \<and> name (sample_object ''MESH'' ''Cube'' (ReturnsMesh (sample_mesh 12))) = str ''Cube''
   \<and> mesh_owner_to_mesh False (sample_object ''MESH'' ''Cube'' (ReturnsMesh (sample_mesh 12)))
       = ReturnsMesh (sample_mesh 12)
   \<and> length (loop_triangles (sample_mesh 12)) = 12
   \<and> keep_mesh () (sample_object ''MESH'' ''Cube'' (ReturnsMesh (sample_mesh 12))) (sample_mesh 12)
       = Inr (sample_mesh 12)
   \<and> list_all (valid_triangle (sample_mesh 12)) (loop_triangles (sample_mesh 12))
   \<and> write_sfmesh_raw keep_mesh \<lparr>buffer = [], reports = []\<rparr>
        [sample_object ''MESH'' ''Cube'' (ReturnsMesh (sample_mesh 12))] () False =
      (None, \<lparr>buffer = [0x01, 0x00, 0x00, 0x00, 0x00, 0x00, 0x00, 0x01, 0x00, 0x00, 0x00]
                 @ [0x04, 0x00, 0x00, 0x00] @ [0x43, 0x75, 0x62, 0x65] @ [0x0C, 0x00]
                 @ body_block keep_mesh () False
                     (sample_object ''MESH'' ''Cube'' (ReturnsMesh (sample_mesh 12))),
              reports = []\<rparr>)
   \<and> length (body_block keep_mesh () False
        (sample_object ''MESH'' ''Cube'' (ReturnsMesh (sample_mesh 12)))) = 1584"
proof -
  let ?ob = "sample_object ''MESH'' ''Cube'' (ReturnsMesh (sample_mesh 12))"
  have a1: "type ?ob = ''MESH''" by (simp add: sample_object_def)
  have a2: "name ?ob = str ''Cube''" by (simp add: sample_object_def)
  have a3: "mesh_owner_to_mesh False ?ob = ReturnsMesh (sample_mesh 12)"
    by (simp add: sample_object_def mesh_owner_to_mesh_def)
  have a4: "length (loop_triangles (sample_mesh 12)) = 12" by (simp add: sample_mesh_def)
  have a5: "keep_mesh () ?ob (sample_mesh 12) = Inr (sample_mesh 12)" by (simp add: keep_mesh_def)
  note a7 = valid_triangle_sample [of 12]
  note c = cube_scenario [where geometry = keep_mesh and gm = "()" and rs = "[]",
      OF a1 a2 a3 a4 a5 a4 a7]
  from a1 a2 a3 a4 a5 a7 c show ?thesis by (simp only: simp_thms)
qed

subsection \<open>Failing mesh resolution\<close>

lemma write_header_objects_cut:
  assumes "resolution_fails umm bad"
  shows "write_header_objects umm (pre @ bad # post) s = write_header_objects umm pre s"
proof (induction pre arbitrary: s)
  case Nil
  show ?case by (simp add: write_header_objects_fails [OF assms] del: write_header_objects.simps(2))
next
  case (Cons ob pre)
  show ?case
    by (simp add: Cons.IH Let_def split: to_mesh_result.splits sum.splits)
qed

lemma write_objects_loop_cut:
  assumes "resolution_fails umm bad"
  shows "write_objects_loop geometry gm umm (pre @ bad # post) s =
    write_objects_loop geometry gm umm pre s"
proof (induction pre arbitrary: s)
  case Nil
  show ?case by (simp add: write_objects_loop_fails [OF assms] del: write_objects_loop.simps(2))
next
  case (Cons ob pre)
  show ?case
    by (simp add: Cons.IH split: to_mesh_result.splits sum.splits prod.splits option.splits)
qed

lemma write_header_objects_all:
  assumes "list_all (header_ok umm) pre"
  shows "write_header_objects umm pre s =
    (None, buffer_write (concat (map (header_block umm) pre)) s)"
  using write_header_objects_ok [OF assms, of "[]" s] by simp

lemma write_objects_loop_all:
  assumes "list_all (body_ok geometry gm umm) pre"
  shows "write_objects_loop geometry gm umm pre s =
    (None, buffer_write (concat (map (body_block geometry gm umm) pre)) s)"
  using write_objects_loop_ok [where geometry = geometry and gm = gm, OF assms, of "[]" s] by simp

lemma write_sfmesh_raw_truncated:
  assumes "resolution_fails umm bad"
    and "list_all (header_ok umm) pre"
    and "list_all (body_ok geometry gm umm) pre"
    and "mesh_count (pre @ bad # post) < 4294967296"
  shows "write_sfmesh_raw geometry \<lparr>buffer = [], reports = rs\<rparr> (pre @ bad # post) gm umm =
    (None, \<lparr>buffer = raw_stream geometry gm umm (mesh_count (pre @ bad # post)) pre,
            reports = rs\<rparr>)"
proof -
  have h: "write_header \<lparr>buffer = [], reports = rs\<rparr> (pre @ bad # post) umm =
      (None, buffer_write (concat (map (header_block umm) pre))
         (buffer_write (preamble (mesh_count (pre @ bad # post))) \<lparr>buffer = [], reports = rs\<rparr>))"
    by (simp only: write_header_preamble [OF assms(4)] write_header_objects_cut [OF assms(1)]
        write_header_objects_all [OF assms(2)])
  have b: "write_objects geometry s (pre @ bad # post) gm umm =
      (None, buffer_write (concat (map (body_block geometry gm umm) pre)) s)" for s
    by (simp only: write_objects_def write_objects_loop_cut [OF assms(1)]
        write_objects_loop_all [where geometry = geometry and gm = gm, OF assms(3)])
  show ?thesis
    by (simp add: write_sfmesh_raw_def h b buffer_write_def raw_stream_def)
qed

lemma write_sfmesh_of_raw:
  assumes "write_sfmesh_raw geometry \<lparr>buffer = [], reports = rs\<rparr> objects gm umm = (None, s)"
  shows "write_sfmesh lz geometry rs objects gm umm True = (None, reports s, Some (buffer s))"
    and "length (buffer s) < 2 ^ 64 \<Longrightarrow>
      write_sfmesh lz geometry rs objects gm umm False =
        (None, reports s,
         Some ([0x72, 0x65, 0x74, 0x75, 0x72, 0x6E, 0x20, 0x22]
               @ b64encode (patched_stream (lz (buffer s)) (length (buffer s))) @ [0x22]))"
  by (simp_all add: write_sfmesh_def assms patch_size_def to_bytes_def Let_def patched_stream_def
      ascii_def)

text \<open>
  Claim C8. When mesh resolution fails for an object (\<^verbatim>\<open>to_mesh\<close> raises or returns
  \<^verbatim>\<open>None\<close>), the header pass and the body pass both stop at that object without raising:
  each pass over the whole list does what it does over the objects before the failing
  one, so what was written for those stays and nothing is written for the failing object
  or a later one. When the earlier objects are written without exception, the truncated
  buffer is the raw file in raw mode, and is compressed, patched and wrapped in packed
  mode.
\<close>

theorem resolution_failure_truncates:
  assumes "resolution_fails umm bad"
  shows "write_header_objects umm (pre @ bad # post) s = write_header_objects umm pre s
    \<and> write_objects_loop geometry gm umm (pre @ bad # post) s' =
        write_objects_loop geometry gm umm pre s'
    \<and> (list_all (header_ok umm) pre \<and> list_all (body_ok geometry gm umm) pre
        \<and> mesh_count (pre @ bad # post) < 4294967296 \<longrightarrow>
          write_sfmesh_raw geometry \<lparr>buffer = [], reports = rs\<rparr> (pre @ bad # post) gm umm =
            (None, \<lparr>buffer = raw_stream geometry gm umm (mesh_count (pre @ bad # post)) pre,
                    reports = rs\<rparr>)
          \<and> write_sfmesh lz geometry rs (pre @ bad # post) gm umm True =
            (None, rs, Some (raw_stream geometry gm umm (mesh_count (pre @ bad # post)) pre))
          \<and> (length (raw_stream geometry gm umm (mesh_count (pre @ bad # post)) pre) < 2 ^ 64 \<longrightarrow>
              write_sfmesh lz geometry rs (pre @ bad # post) gm umm False =
                (None, rs,
                 Some ([0x72, 0x65, 0x74, 0x75, 0x72, 0x6E, 0x20, 0x22]
                   @ b64encode (patched_stream
                       (lz (raw_stream geometry gm umm (mesh_count (pre @ bad # post)) pre))
                       (length (raw_stream geometry gm umm (mesh_count (pre @ bad # post)) pre)))
                   @ [0x22]))))"
proof (intro conjI impI)
  show "write_header_objects umm (pre @ bad # post) s = write_header_objects umm pre s"
    by (rule write_header_objects_cut [OF assms])
  show "write_objects_loop geometry gm umm (pre @ bad # post) s' =
      write_objects_loop geometry gm umm pre s'"
    by (rule write_objects_loop_cut [OF assms])
next
  assume ok: "list_all (header_ok umm) pre \<and> list_all (body_ok geometry gm umm) pre
      \<and> mesh_count (pre @ bad # post) < 4294967296"
  let ?buf = "raw_stream geometry gm umm (mesh_count (pre @ bad # post)) pre"
  have raw: "write_sfmesh_raw geometry \<lparr>buffer = [], reports = rs\<rparr> (pre @ bad # post) gm umm =
      (None, \<lparr>buffer = ?buf, reports = rs\<rparr>)"
    using ok write_sfmesh_raw_truncated [where geometry = geometry and gm = gm, OF assms] by blast
  show "write_sfmesh_raw geometry \<lparr>buffer = [], reports = rs\<rparr> (pre @ bad # post) gm umm =
      (None, \<lparr>buffer = ?buf, reports = rs\<rparr>)"
    by (rule raw)
  show "write_sfmesh lz geometry rs (pre @ bad # post) gm umm True = (None, rs, Some ?buf)"
    using write_sfmesh_of_raw(1) [where geometry = geometry and gm = gm, OF raw] by simp
  assume "length ?buf < 2 ^ 64"
  then show "write_sfmesh lz geometry rs (pre @ bad # post) gm umm False =
      (None, rs,
       Some ([0x72, 0x65, 0x74, 0x75, 0x72, 0x6E, 0x20, 0x22]
         @ b64encode (patched_stream (lz ?buf) (length ?buf)) @ [0x22]))"
    using write_sfmesh_of_raw(2) [where geometry = geometry and gm = gm, OF raw] by simp
qed

lemma resolution_fails_light: "resolution_fails umm light"
  by (simp add: resolution_fails_def light_def sample_object_def mesh_owner_to_mesh_def)

lemma mesh_owner_cube: "mesh_owner_to_mesh umm cube = ReturnsMesh (sample_mesh 12)"
  by (simp add: cube_def sample_object_def mesh_owner_to_mesh_def)

lemma header_ok_cube: "header_ok umm cube"
  by (simp add: header_ok_def mesh_owner_cube)
    (simp add: cube_def sample_object_def encode_utf8_Cube sample_mesh_def)

lemma body_ok_cube: "body_ok keep_mesh () umm cube"
  by (simp add: body_ok_def mesh_owner_cube keep_mesh_def valid_triangle_sample)

lemma header_block_cube:
  "header_block umm cube = [0x04, 0x00, 0x00, 0x00, 0x43, 0x75, 0x62, 0x65, 0x0C, 0x00]"
  by (simp add: header_block_def mesh_owner_cube)
    (simp add: cube_def sample_object_def encode_utf8_Cube sample_mesh_def le_bytes_numeral)

lemma length_body_block_cube: "length (body_block keep_mesh () umm cube) = 1584"
proof -
  have g: "keep_mesh () cube (sample_mesh 12) = Inr (sample_mesh 12)"
    by (simp add: keep_mesh_def)
  have "length (body_block keep_mesh () umm cube) = 132 * length (loop_triangles (sample_mesh 12))"
    by (rule length_body_block [where geometry = keep_mesh and gm = "()", OF mesh_owner_cube g
        valid_triangle_sample])
  then show ?thesis by (simp add: sample_mesh_def)
qed

lemma type_samples: "type cube = ''MESH''" "type light = ''LIGHT''" "type curve = ''CURVE''"
  "type big = ''MESH''"
  by (simp_all add: cube_def light_def curve_def big_def sample_object_def)

lemma length_preamble: "length (preamble n) = 11"
  by (simp add: preamble_def)

text \<open>
  The statement at a cube, a light and a second cube.
\<close>

theorem resolution_failure_truncates_witness:
  "resolution_fails False light
   \<and> list_all (header_ok False) [cube] \<and> list_all (body_ok keep_mesh () False) [cube]
   \<and> mesh_count ([cube] @ light # [cube]) < 4294967296
   \<and> length (raw_stream keep_mesh () False (mesh_count ([cube] @ light # [cube])) [cube]) < 2 ^ 64
   \<and> write_header_objects False ([cube] @ light # [cube]) \<lparr>buffer = [], reports = []\<rparr> =
       write_header_objects False [cube] \<lparr>buffer = [], reports = []\<rparr>
   \<and> write_sfmesh sample_lzma keep_mesh [] ([cube] @ light # [cube]) () False True =
       (None, [], Some (raw_stream keep_mesh () False (mesh_count ([cube] @ light # [cube])) [cube]))
   \<and> write_sfmesh sample_lzma keep_mesh [] ([cube] @ light # [cube]) () False False =
       (None, [],
        Some ([0x72, 0x65, 0x74, 0x75, 0x72, 0x6E, 0x20, 0x22]
          @ b64encode (patched_stream
              (sample_lzma (raw_stream keep_mesh () False (mesh_count ([cube] @ light # [cube])) [cube]))
              (length (raw_stream keep_mesh () False (mesh_count ([cube] @ light # [cube])) [cube])))
          @ [0x22]))"
proof -
  have f: "resolution_fails False light" by (rule resolution_fails_light)
  have h: "list_all (header_ok False) [cube]" by (simp add: header_ok_cube)
  have b: "list_all (body_ok keep_mesh () False) [cube]" by (simp add: body_ok_cube)
  have c: "mesh_count ([cube] @ light # [cube]) < 4294967296"
    by (simp add: mesh_count_def type_samples)
  have l: "length (raw_stream keep_mesh () False (mesh_count ([cube] @ light # [cube])) [cube])
      < 2 ^ 64"
    by (simp add: raw_stream_def length_preamble header_block_cube length_body_block_cube)
  note t = resolution_failure_truncates [where geometry = keep_mesh and gm = "()" and umm = False
      and bad = light and pre = "[cube]" and post = "[cube]" and rs = "[]" and lz = sample_lzma
      and s = "\<lparr>buffer = [], reports = []\<rparr>", OF f]
  from f h b c l t show ?thesis by blast
qed

lemma mesh_count_append: "mesh_count (xs @ ys) = mesh_count xs + mesh_count ys"
  by (simp add: mesh_count_def)

lemma mesh_count_all:
  assumes "list_all (\<lambda>ob. type ob = ''MESH'') xs"
  shows "mesh_count xs = length xs"
  using assms by (induction xs) (simp_all add: mesh_count_def)




subsection \<open>The container\<close>

lemma patched_stream_facts:
  assumes "13 \<le> length lzc" and "n < 2 ^ 64"
  shows "length (patched_stream lzc n) = length lzc"
    and "take 5 (patched_stream lzc n) = take 5 lzc"
    and "drop 13 (patched_stream lzc n) = drop 13 lzc"
    and "take 8 (drop 5 (patched_stream lzc n)) = le_bytes 8 n"
    and "from_bytes (take 8 (drop 5 (patched_stream lzc n))) = n"
proof -
  from assms(1) have m: "min (length lzc) 5 = 5" by simp
  show "length (patched_stream lzc n) = length lzc"
    using assms(1) by (simp add: patched_stream_def)
  show "take 5 (patched_stream lzc n) = take 5 lzc"
    by (simp add: patched_stream_def m)
  show "drop 13 (patched_stream lzc n) = drop 13 lzc"
    by (simp add: patched_stream_def m)
  show t: "take 8 (drop 5 (patched_stream lzc n)) = le_bytes 8 n"
    by (simp add: patched_stream_def m)
  have "n < 256 ^ 8" using assms(2) by simp
  then show "from_bytes (take 8 (drop 5 (patched_stream lzc n))) = n"
    unfolding t by (rule from_bytes_le_bytes)
qed

lemma payload_wrapped:
  "payload ([0x72, 0x65, 0x74, 0x75, 0x72, 0x6E, 0x20, 0x22] @ text @ [0x22]) = text"
  by (simp add: payload_def)

text \<open>
  Claim C3. In packed mode the file holds, between the prefix and the closing quote, the
  base64 text of the compressed stream with bytes 5 to 12 replaced by the length of the
  raw buffer as a 64-bit little-endian integer; bytes 0 to 4 and 13 onward are those of
  the compressed stream. Decoding the text and reading the 8 bytes at offset 5 gives the
  length of the raw buffer. The compressed stream has the 13-byte header of the format.
\<close>

theorem packed_size_field:
  assumes "write_sfmesh_raw geometry \<lparr>buffer = [], reports = rs\<rparr> objects gm umm = (None, s)"
    and "13 \<le> length (lzma_compress (buffer s))"
    and "length (buffer s) < 2 ^ 64"
  shows "write_sfmesh lzma_compress geometry rs objects gm umm False =
      (None, reports s,
       Some ([0x72, 0x65, 0x74, 0x75, 0x72, 0x6E, 0x20, 0x22]
             @ b64encode (patched_stream (lzma_compress (buffer s)) (length (buffer s)))
             @ [0x22]))
    \<and> b64decode (payload ([0x72, 0x65, 0x74, 0x75, 0x72, 0x6E, 0x20, 0x22]
             @ b64encode (patched_stream (lzma_compress (buffer s)) (length (buffer s)))
             @ [0x22]))
        = Some (patched_stream (lzma_compress (buffer s)) (length (buffer s)))
    \<and> length (patched_stream (lzma_compress (buffer s)) (length (buffer s)))
        = length (lzma_compress (buffer s))
    \<and> take 5 (patched_stream (lzma_compress (buffer s)) (length (buffer s)))
        = take 5 (lzma_compress (buffer s))
    \<and> drop 13 (patched_stream (lzma_compress (buffer s)) (length (buffer s)))
        = drop 13 (lzma_compress (buffer s))
    \<and> take 8 (drop 5 (patched_stream (lzma_compress (buffer s)) (length (buffer s))))
        = le_bytes 8 (length (buffer s))
    \<and> from_bytes (take 8 (drop 5 (patched_stream (lzma_compress (buffer s)) (length (buffer s)))))
        = length (buffer s)"
proof -
  note w = write_sfmesh_of_raw(2) [where geometry = geometry and gm = gm and lz = lzma_compress,
      OF assms(1) assms(3)]
  note d = b64decode_b64encode [of "patched_stream (lzma_compress (buffer s)) (length (buffer s))"]
  note p = patched_stream_facts [OF assms(2) assms(3)]
  from w d p show ?thesis by (simp only: payload_wrapped simp_thms)
qed

lemma write_sfmesh_raw_empty:
  "write_sfmesh_raw geometry \<lparr>buffer = [], reports = rs\<rparr> [] gm umm =
    (None, \<lparr>buffer = [0x01, 0x00, 0x00, 0x00, 0x00, 0x00, 0x00, 0x00, 0x00, 0x00, 0x00],
            reports = rs\<rparr>)"
proof -
  have c: "mesh_count [] < 4294967296" by (simp add: mesh_count_def)
  have z: "mesh_count [] = 0" by (simp add: mesh_count_def)
  have p: "preamble 0 = [0x01, 0x00, 0x00, 0x00, 0x00, 0x00, 0x00, 0x00, 0x00, 0x00, 0x00]"
    by (simp add: preamble_def le_bytes_numeral)
  show ?thesis
    by (simp add: write_sfmesh_raw_def write_header_preamble [OF c] z p write_objects_def
        buffer_write_def)
qed

text \<open>
  The statement at the empty scene, whose raw buffer has 11 bytes.
\<close>

theorem packed_size_field_witness:
  "write_sfmesh_raw keep_mesh \<lparr>buffer = [], reports = []\<rparr> [] () False =
     (None, \<lparr>buffer = [0x01, 0x00, 0x00, 0x00, 0x00, 0x00, 0x00, 0x00, 0x00, 0x00, 0x00],
             reports = []\<rparr>)
   \<and> 13 \<le> length (sample_lzma [0x01, 0x00, 0x00, 0x00, 0x00, 0x00, 0x00, 0x00, 0x00, 0x00, 0x00])
   \<and> length [0x01, 0x00, 0x00, 0x00, 0x00, 0x00, 0x00, 0x00, 0x00, 0x00, 0x00 :: byte] < 2 ^ 64
   \<and> take 8 (drop 5 (patched_stream
         (sample_lzma [0x01, 0x00, 0x00, 0x00, 0x00, 0x00, 0x00, 0x00, 0x00, 0x00, 0x00]) 11))
       = [0x0B, 0x00, 0x00, 0x00, 0x00, 0x00, 0x00, 0x00]
   \<and> from_bytes (take 8 (drop 5 (patched_stream
         (sample_lzma [0x01, 0x00, 0x00, 0x00, 0x00, 0x00, 0x00, 0x00, 0x00, 0x00, 0x00]) 11)))
       = 11"
proof -
  let ?b = "[0x01, 0x00, 0x00, 0x00, 0x00, 0x00, 0x00, 0x00, 0x00, 0x00, 0x00] :: byte list"
  let ?s = "\<lparr>buffer = ?b, reports = []\<rparr>"
  have r: "write_sfmesh_raw keep_mesh \<lparr>buffer = [], reports = []\<rparr> [] () False = (None, ?s)"
    by (rule write_sfmesh_raw_empty)
  have l: "13 \<le> length (sample_lzma (buffer ?s))" by (simp add: sample_lzma_def)
  have n: "length (buffer ?s) < 2 ^ 64" by simp
  note t = packed_size_field [where geometry = keep_mesh and gm = "()"
      and lzma_compress = sample_lzma, OF r l n]
  have e: "le_bytes 8 11 = [0x0B, 0x00, 0x00, 0x00, 0x00, 0x00, 0x00, 0x00]"
    by (simp add: le_bytes_numeral)
  have bb: "buffer ?s = ?b" by simp
  have bl: "length ?b = 11" by simp
  from t have "take 8 (drop 5 (patched_stream (sample_lzma (buffer ?s)) (length (buffer ?s))))
      = le_bytes 8 (length (buffer ?s))"
    by blast
  then have 1: "take 8 (drop 5 (patched_stream (sample_lzma ?b) 11)) = le_bytes 8 11"
    unfolding bb bl .
  from t have "from_bytes (take 8 (drop 5 (patched_stream (sample_lzma (buffer ?s))
      (length (buffer ?s))))) = length (buffer ?s)"
    by blast
  then have 2: "from_bytes (take 8 (drop 5 (patched_stream (sample_lzma ?b) 11))) = 11"
    unfolding bb bl .
  from l n have l': "13 \<le> length (sample_lzma ?b)" and n': "length ?b < 2 ^ 64" by simp_all
  from r l' n' 1 2 show ?thesis unfolding e by (simp only: simp_thms)
qed

text \<open>
  Claim C4, as amended. In packed mode the bytes written are exactly the 8-byte prefix
  \<^verbatim>\<open>return "\<close> (the word, a space and a double quote, the quote being the eighth
  byte), the base64 text of the patched compressed stream, and a closing double quote.
\<close>

theorem packed_file_layout:
  assumes "write_sfmesh_raw geometry \<lparr>buffer = [], reports = rs\<rparr> objects gm umm = (None, s)"
    and "length (buffer s) < 2 ^ 64"
  shows "write_sfmesh lzma_compress geometry rs objects gm umm False =
      (None, reports s,
       Some (ascii ''return '' @ [0x22]
             @ b64encode (patched_stream (lzma_compress (buffer s)) (length (buffer s)))
             @ [0x22]))
    \<and> ascii ''return '' @ [0x22] = [0x72, 0x65, 0x74, 0x75, 0x72, 0x6E, 0x20, 0x22]
    \<and> length (ascii ''return '' @ [0x22]) = 8"
proof -
  note w = write_sfmesh_of_raw(2) [where geometry = geometry and gm = gm and lz = lzma_compress,
      OF assms]
  from w show ?thesis by (simp add: ascii_def)
qed

lemma b64encode_sample:
  "b64encode (patched_stream
      (sample_lzma [0x01, 0x00, 0x00, 0x00, 0x00, 0x00, 0x00, 0x00, 0x00, 0x00, 0x00]) 11)
    = ascii ''XQAAgAALAAAAAAAAAAEAAAAAAAAAAAAA''"
  by (simp add: patched_stream_def sample_lzma_def le_bytes_numeral b64_char_def b64_alphabet_def
      ascii_def)

text \<open>
  The packed file of the empty scene.
\<close>

theorem packed_file_layout_witness:
  "write_sfmesh_raw keep_mesh \<lparr>buffer = [], reports = []\<rparr> [] () False =
     (None, \<lparr>buffer = [0x01, 0x00, 0x00, 0x00, 0x00, 0x00, 0x00, 0x00, 0x00, 0x00, 0x00],
             reports = []\<rparr>)
   \<and> length [0x01, 0x00, 0x00, 0x00, 0x00, 0x00, 0x00, 0x00, 0x00, 0x00, 0x00 :: byte] < 2 ^ 64
   \<and> write_sfmesh sample_lzma keep_mesh [] [] () False False =
       (None, [],
        Some (ascii ''return '' @ [0x22] @ ascii ''XQAAgAALAAAAAAAAAAEAAAAAAAAAAAAA'' @ [0x22]))"
proof -
  let ?b = "[0x01, 0x00, 0x00, 0x00, 0x00, 0x00, 0x00, 0x00, 0x00, 0x00, 0x00] :: byte list"
  let ?s = "\<lparr>buffer = ?b, reports = []\<rparr>"
  have r: "write_sfmesh_raw keep_mesh \<lparr>buffer = [], reports = []\<rparr> [] () False = (None, ?s)"
    by (rule write_sfmesh_raw_empty)
  have n: "length (buffer ?s) < 2 ^ 64" by simp
  have bb: "buffer ?s = ?b" by simp
  have bl: "length ?b = 11" by simp
  have rr: "reports ?s = []" by simp
  note t = packed_file_layout [where geometry = keep_mesh and gm = "()"
      and lzma_compress = sample_lzma, OF r n, THEN conjunct1]
  from t have w: "write_sfmesh sample_lzma keep_mesh [] [] () False False =
       (None, [],
        Some (ascii ''return '' @ [0x22] @ ascii ''XQAAgAALAAAAAAAAAAEAAAAAAAAAAAAA'' @ [0x22]))"
    unfolding bb bl rr b64encode_sample .
  from n have n': "length ?b < 2 ^ 64" by simp
  from r n' w show ?thesis by (simp only: simp_thms)
qed

text \<open>
  Claim C4 as it was stated, an 8-byte prefix token followed by a double quote, fails at
  the empty scene: the byte at offset 7 is the double quote, the byte at offset 8 is the
  first base64 character, and the file is one byte shorter than 8 + 1 + 32 + 1.
\<close>

theorem packed_file_counterexample:
  "write_sfmesh sample_lzma keep_mesh [] [] () False False =
       (None, [],
        Some (ascii ''return '' @ [0x22] @ ascii ''XQAAgAALAAAAAAAAAAEAAAAAAAAAAAAA'' @ [0x22]))
   \<and> b64encode (patched_stream
         (sample_lzma [0x01, 0x00, 0x00, 0x00, 0x00, 0x00, 0x00, 0x00, 0x00, 0x00, 0x00]) 11)
       = ascii ''XQAAgAALAAAAAAAAAAEAAAAAAAAAAAAA''
   \<and> (ascii ''return '' @ [0x22] @ ascii ''XQAAgAALAAAAAAAAAAEAAAAAAAAAAAAA'' @ [0x22]) ! 7
       = (0x22 :: byte)
   \<and> (ascii ''return '' @ [0x22] @ ascii ''XQAAgAALAAAAAAAAAAEAAAAAAAAAAAAA'' @ [0x22]) ! 8
       \<noteq> (0x22 :: byte)
   \<and> length (ascii ''return '' @ [0x22] @ ascii ''XQAAgAALAAAAAAAAAAEAAAAAAAAAAAAA''
         @ [0x22 :: byte])
       \<noteq> 8 + 1 + length (ascii ''XQAAgAALAAAAAAAAAAEAAAAAAAAAAAAA'' :: byte list) + 1"
proof -
  let ?b = "[0x01, 0x00, 0x00, 0x00, 0x00, 0x00, 0x00, 0x00, 0x00, 0x00, 0x00] :: byte list"
  let ?s = "\<lparr>buffer = ?b, reports = []\<rparr>"
  have r: "write_sfmesh_raw keep_mesh \<lparr>buffer = [], reports = []\<rparr> [] () False = (None, ?s)"
    by (rule write_sfmesh_raw_empty)
  have n: "length (buffer ?s) < 2 ^ 64" by simp
  have bb: "buffer ?s = ?b" by simp
  have bl: "length ?b = 11" by simp
  have rr: "reports ?s = []" by simp
  note t = write_sfmesh_of_raw(2) [where geometry = keep_mesh and gm = "()"
      and lz = sample_lzma, OF r n]
  from t have "write_sfmesh sample_lzma keep_mesh [] [] () False False =
       (None, [],
        Some ([0x72, 0x65, 0x74, 0x75, 0x72, 0x6E, 0x20, 0x22]
              @ ascii ''XQAAgAALAAAAAAAAAAEAAAAAAAAAAAAA'' @ [0x22]))"
    unfolding bb bl rr b64encode_sample .
  then have w: "write_sfmesh sample_lzma keep_mesh [] [] () False False =
       (None, [],
        Some (ascii ''return '' @ [0x22] @ ascii ''XQAAgAALAAAAAAAAAAEAAAAAAAAAAAAA'' @ [0x22]))"
    by (simp add: ascii_def)
  have 7: "(ascii ''return '' @ [0x22] @ ascii ''XQAAgAALAAAAAAAAAAEAAAAAAAAAAAAA'' @ [0x22]) ! 7
       = (0x22 :: byte)"
    by (simp add: ascii_def)
  have 8: "(ascii ''return '' @ [0x22] @ ascii ''XQAAgAALAAAAAAAAAAEAAAAAAAAAAAAA'' @ [0x22]) ! 8
       \<noteq> (0x22 :: byte)"
    by (simp add: ascii_def)
  have l: "length (ascii ''return '' @ [0x22] @ ascii ''XQAAgAALAAAAAAAAAAEAAAAAAAAAAAAA''
         @ [0x22 :: byte])
       \<noteq> 8 + 1 + length (ascii ''XQAAgAALAAAAAAAAAAEAAAAAAAAAAAAA'' :: byte list) + 1"
    by (simp add: ascii_def)
  from w b64encode_sample 7 8 l show ?thesis by (simp only: simp_thms)
qed

subsection \<open>Too many triangles, and objects that are not meshes\<close>

lemma write_header_objects_too_many:
  assumes "mesh_owner_to_mesh umm ob = ReturnsMesh m"
    and "65536 \<le> length (loop_triangles m)"
    and "encode_utf8 (name ob) = Inr nm"
    and "length nm < 4294967296"
  shows "write_header_objects umm (ob # rest) s =
    (Some StructError,
     buffer_write (le_bytes 4 (length nm) @ nm)
       (report ''WARNING'' (str ''Object '' @ name ob @ str '' has too many triangles!'') s))"
proof -
  from assms(2) have t: "\<not> length (loop_triangles m) < 65536" by simp
  show ?thesis
    by (simp add: assms t Let_def buffer_write_twice)
qed

lemma write_header_objects_warning:
  assumes "mesh_owner_to_mesh umm ob = ReturnsMesh m"
  shows "reports (snd (write_header_objects umm [ob] s)) =
    (if 65536 \<le> length (loop_triangles m)
     then reports s @ [(''WARNING'', str ''Object '' @ name ob @ str '' has too many triangles!'')]
     else reports s)"
  by (simp add: assms Let_def buffer_write_def report_def split: sum.splits)

lemma encode_utf8_Big: "encode_utf8 (str ''Big'') = Inr [0x42, 0x69, 0x67]"
  by (simp add: str_def utf8_char_def)

lemma encode_utf8_Curve: "encode_utf8 (str ''Curve'') = Inr [0x43, 0x75, 0x72, 0x76, 0x65]"
  by (simp add: str_def utf8_char_def)

lemma mesh_owner_big: "mesh_owner_to_mesh umm big = ReturnsMesh (sample_mesh 65536)"
  by (simp add: big_def sample_object_def mesh_owner_to_mesh_def)

lemma name_big: "name big = str ''Big''"
  by (simp add: big_def sample_object_def)

lemma triangles_sample: "length (loop_triangles (sample_mesh n)) = n"
  by (simp add: sample_mesh_def)

lemma write_header_objects_big:
  "write_header_objects umm (big # rest) s =
    (Some StructError,
     buffer_write ([0x03, 0x00, 0x00, 0x00] @ [0x42, 0x69, 0x67])
       (report ''WARNING'' (str ''Object Big has too many triangles!'') s))"
proof -
  have n: "encode_utf8 (name big) = Inr [0x42, 0x69, 0x67]"
    by (simp add: name_big encode_utf8_Big)
  have t: "65536 \<le> length (loop_triangles (sample_mesh 65536))"
    by (simp add: triangles_sample)
  have l: "length [0x42, 0x69, 0x67 :: byte] < 4294967296" by simp
  have m: "str ''Object '' @ name big @ str '' has too many triangles!'' =
      str ''Object Big has too many triangles!''"
    by (simp add: name_big str_def)
  show ?thesis
    using write_header_objects_too_many [OF mesh_owner_big t n l, of umm rest s]
    by (simp add: m le_bytes_numeral)
qed

text \<open>
  Claim C1 at a mesh of 65536 triangles. \<^verbatim>\<open>struct.pack("<H", 65536)\<close> raises: the
  header pass reports the warning, writes the name length and the name, and then stops
  with \<^verbatim>\<open>struct.error\<close>. No triangle-count field is written, the object after it is never
  reached, and \<open>write_sfmesh\<close> writes no file.
\<close>

theorem triangle_count_overflow_raises:
  "length (loop_triangles (sample_mesh 65536)) = 65536
   \<and> struct_pack [(2, 65536)] = Inl StructError
   \<and> write_header \<lparr>buffer = [], reports = []\<rparr> [big, cube] False =
       (Some StructError,
        \<lparr>buffer = [0x01, 0x00, 0x00, 0x00, 0x00, 0x00, 0x00, 0x02, 0x00, 0x00, 0x00]
                   @ [0x03, 0x00, 0x00, 0x00] @ [0x42, 0x69, 0x67],
         reports = [(''WARNING'', str ''Object Big has too many triangles!'')]\<rparr>)
   \<and> write_sfmesh sample_lzma keep_mesh [] [big, cube] () False True =
       (Some StructError, [(''WARNING'', str ''Object Big has too many triangles!'')], None)"
proof -
  have c: "mesh_count [big, cube] = 2" by (simp add: mesh_count_def type_samples)
  have c': "mesh_count [big, cube] < 4294967296" by (simp add: c)
  have p: "preamble 2 = [0x01, 0x00, 0x00, 0x00, 0x00, 0x00, 0x00, 0x02, 0x00, 0x00, 0x00]"
    by (simp add: preamble_def le_bytes_numeral)
  have h: "write_header \<lparr>buffer = [], reports = []\<rparr> [big, cube] False =
       (Some StructError,
        \<lparr>buffer = [0x01, 0x00, 0x00, 0x00, 0x00, 0x00, 0x00, 0x02, 0x00, 0x00, 0x00]
                   @ [0x03, 0x00, 0x00, 0x00] @ [0x42, 0x69, 0x67],
         reports = [(''WARNING'', str ''Object Big has too many triangles!'')]\<rparr>)"
    unfolding write_header_preamble [OF c'] c write_header_objects_big p
    by (simp add: buffer_write_def report_def)
  have w: "write_sfmesh sample_lzma keep_mesh [] [big, cube] () False True =
       (Some StructError, [(''WARNING'', str ''Object Big has too many triangles!'')], None)"
    by (simp add: write_sfmesh_def write_sfmesh_raw_def h)
  have s: "struct_pack [(2, 65536)] = Inl StructError" by simp
  from triangles_sample [of 65536] s h w show ?thesis by (simp only: simp_thms)
qed

lemma write_sfmesh_raw_all:
  assumes "list_all (header_ok umm) objects"
    and "list_all (body_ok geometry gm umm) objects"
    and "mesh_count objects < 4294967296"
  shows "write_sfmesh_raw geometry \<lparr>buffer = [], reports = rs\<rparr> objects gm umm =
    (None, \<lparr>buffer = raw_stream geometry gm umm (mesh_count objects) objects, reports = rs\<rparr>)"
proof -
  have h: "write_header \<lparr>buffer = [], reports = rs\<rparr> objects umm =
      (None, buffer_write (concat (map (header_block umm) objects))
         (buffer_write (preamble (mesh_count objects)) \<lparr>buffer = [], reports = rs\<rparr>))"
    by (simp only: write_header_preamble [OF assms(3)] write_header_objects_all [OF assms(1)])
  have b: "write_objects geometry s objects gm umm =
      (None, buffer_write (concat (map (body_block geometry gm umm) objects)) s)" for s
    by (simp only: write_objects_def
        write_objects_loop_all [where geometry = geometry and gm = gm, OF assms(2)])
  show ?thesis
    by (simp add: write_sfmesh_raw_def h b buffer_write_def raw_stream_def)
qed

lemma mesh_owner_curve: "mesh_owner_to_mesh umm curve = ReturnsMesh (sample_mesh 1)"
  by (simp add: curve_def sample_object_def mesh_owner_to_mesh_def)

lemma header_ok_curve: "header_ok umm curve"
  by (simp add: header_ok_def mesh_owner_curve)
    (simp add: curve_def sample_object_def encode_utf8_Curve sample_mesh_def)

lemma body_ok_curve: "body_ok keep_mesh () umm curve"
  by (simp add: body_ok_def mesh_owner_curve keep_mesh_def valid_triangle_sample)

lemma header_block_curve:
  "header_block umm curve = [0x05, 0x00, 0x00, 0x00, 0x43, 0x75, 0x72, 0x76, 0x65, 0x01, 0x00]"
  by (simp add: header_block_def mesh_owner_curve)
    (simp add: curve_def sample_object_def encode_utf8_Curve sample_mesh_def le_bytes_numeral)

lemma length_body_block_curve: "length (body_block keep_mesh () umm curve) = 132"
proof -
  have g: "keep_mesh () curve (sample_mesh 1) = Inr (sample_mesh 1)"
    by (simp add: keep_mesh_def)
  have "length (body_block keep_mesh () umm curve) = 132 * length (loop_triangles (sample_mesh 1))"
    by (rule length_body_block [where geometry = keep_mesh and gm = "()", OF mesh_owner_curve g
        valid_triangle_sample])
  then show ?thesis by (simp add: sample_mesh_def)
qed

text \<open>
  Claim C2 at a scene of one curve, an object that is not of type \<^verbatim>\<open>MESH\<close> and whose
  mesh resolution succeeds: the count written is 0, yet one metadata block and one body
  block of 132 bytes follow.
\<close>

theorem non_mesh_object_written:
  "type curve = ''CURVE''
   \<and> \<not> resolution_fails False curve
   \<and> mesh_count [curve] = 0
   \<and> write_sfmesh_raw keep_mesh \<lparr>buffer = [], reports = []\<rparr> [curve] () False =
       (None,
        \<lparr>buffer = [0x01, 0x00, 0x00, 0x00, 0x00, 0x00, 0x00, 0x00, 0x00, 0x00, 0x00]
                   @ [0x05, 0x00, 0x00, 0x00, 0x43, 0x75, 0x72, 0x76, 0x65, 0x01, 0x00]
                   @ body_block keep_mesh () False curve,
         reports = []\<rparr>)
   \<and> length (body_block keep_mesh () False curve) = 132"
proof -
  have t: "type curve = ''CURVE''" by (rule type_samples)
  have f: "\<not> resolution_fails False curve"
    by (simp add: resolution_fails_def mesh_owner_curve)
  have c: "mesh_count [curve] = 0" by (simp add: mesh_count_def type_samples)
  have c': "mesh_count [curve] < 4294967296" by (simp add: c)
  have h: "list_all (header_ok False) [curve]" by (simp add: header_ok_curve)
  have b: "list_all (body_ok keep_mesh () False) [curve]" by (simp add: body_ok_curve)
  have p: "preamble 0 = [0x01, 0x00, 0x00, 0x00, 0x00, 0x00, 0x00, 0x00, 0x00, 0x00, 0x00]"
    by (simp add: preamble_def le_bytes_numeral)
  have "write_sfmesh_raw keep_mesh \<lparr>buffer = [], reports = []\<rparr> [curve] () False =
      (None, \<lparr>buffer = raw_stream keep_mesh () False (mesh_count [curve]) [curve], reports = []\<rparr>)"
    by (rule write_sfmesh_raw_all [where geometry = keep_mesh and gm = "()", OF h b c'])
  then have w: "write_sfmesh_raw keep_mesh \<lparr>buffer = [], reports = []\<rparr> [curve] () False =
       (None,
        \<lparr>buffer = [0x01, 0x00, 0x00, 0x00, 0x00, 0x00, 0x00, 0x00, 0x00, 0x00, 0x00]
                   @ [0x05, 0x00, 0x00, 0x00, 0x43, 0x75, 0x72, 0x76, 0x65, 0x01, 0x00]
                   @ body_block keep_mesh () False curve,
         reports = []\<rparr>)"
    unfolding c by (simp add: raw_stream_def p header_block_curve)
  from t f c w length_body_block_curve [of False] show ?thesis by (simp only: simp_thms)
qed

text \<open>
  Claim C9 at the same mesh of 65536 triangles. The header pass reports the warning and
  then raises, so the export stops and no file is written. At 65535 triangles the count
  \<^verbatim>\<open>FF FF\<close> is written and nothing is reported.
\<close>

theorem warning_aborts_export:
  "reports (snd (write_header_objects False [big] \<lparr>buffer = [], reports = []\<rparr>)) =
      [(''WARNING'', str ''Object Big has too many triangles!'')]
   \<and> fst (write_header_objects False [big] \<lparr>buffer = [], reports = []\<rparr>) = Some StructError
   \<and> write_sfmesh sample_lzma keep_mesh [] [big, cube] () False False =
       (Some StructError, [(''WARNING'', str ''Object Big has too many triangles!'')], None)
   \<and> write_header \<lparr>buffer = [], reports = []\<rparr>
        [sample_object ''MESH'' ''Big'' (ReturnsMesh (sample_mesh 65535))] False =
       (None,
        \<lparr>buffer = [0x01, 0x00, 0x00, 0x00, 0x00, 0x00, 0x00, 0x01, 0x00, 0x00, 0x00]
                   @ [0x03, 0x00, 0x00, 0x00] @ [0x42, 0x69, 0x67] @ [0xFF, 0xFF],
         reports = []\<rparr>)"
proof -
  let ?s0 = "\<lparr>buffer = [], reports = []\<rparr>"
  let ?ob = "sample_object ''MESH'' ''Big'' (ReturnsMesh (sample_mesh 65535))"
  have 1: "reports (snd (write_header_objects False [big] ?s0)) =
      [(''WARNING'', str ''Object Big has too many triangles!'')]"
    unfolding write_header_objects_big by (simp add: buffer_write_def report_def)
  have 2: "fst (write_header_objects False [big] ?s0) = Some StructError"
    unfolding write_header_objects_big by simp
  have c: "mesh_count [big, cube] = 2" by (simp add: mesh_count_def type_samples)
  have c': "mesh_count [big, cube] < 4294967296" by (simp add: c)
  have h: "write_header ?s0 [big, cube] False =
      (Some StructError,
       buffer_write ([0x03, 0x00, 0x00, 0x00] @ [0x42, 0x69, 0x67])
         (report ''WARNING'' (str ''Object Big has too many triangles!'')
            (buffer_write (preamble 2) ?s0)))"
    unfolding write_header_preamble [OF c'] c write_header_objects_big ..
  have 3: "write_sfmesh sample_lzma keep_mesh [] [big, cube] () False False =
       (Some StructError, [(''WARNING'', str ''Object Big has too many triangles!'')], None)"
    by (simp add: write_sfmesh_def write_sfmesh_raw_def h buffer_write_def report_def)
  have m: "mesh_owner_to_mesh False ?ob = ReturnsMesh (sample_mesh 65535)"
    by (simp add: sample_object_def mesh_owner_to_mesh_def)
  have n: "name ?ob = str ''Big''" by (simp add: sample_object_def)
  have ok: "header_ok False ?ob"
    by (simp add: header_ok_def m n encode_utf8_Big triangles_sample)
  have hb: "header_block False ?ob = [0x03, 0x00, 0x00, 0x00] @ [0x42, 0x69, 0x67] @ [0xFF, 0xFF]"
    by (simp add: header_block_def m n encode_utf8_Big triangles_sample le_bytes_numeral)
  have k: "mesh_count [?ob] = 1" by (simp add: mesh_count_def sample_object_def)
  have k': "mesh_count [?ob] < 4294967296" by (simp add: k)
  have l: "list_all (header_ok False) [?ob]" by (simp add: ok)
  have p: "preamble 1 = [0x01, 0x00, 0x00, 0x00, 0x00, 0x00, 0x00, 0x01, 0x00, 0x00, 0x00]"
    by (simp add: preamble_def le_bytes_numeral)
  have "write_header ?s0 [?ob] False =
      (None, buffer_write (concat (map (header_block False) [?ob]))
         (buffer_write (preamble (mesh_count [?ob])) ?s0))"
    by (simp only: write_header_preamble [OF k'] write_header_objects_all [OF l])
  then have 4: "write_header ?s0 [?ob] False =
       (None,
        \<lparr>buffer = [0x01, 0x00, 0x00, 0x00, 0x00, 0x00, 0x00, 0x01, 0x00, 0x00, 0x00]
                   @ [0x03, 0x00, 0x00, 0x00] @ [0x42, 0x69, 0x67] @ [0xFF, 0xFF],
         reports = []\<rparr>)"
    unfolding k p by (simp add: hb buffer_write_def)
  from 1 2 3 4 show ?thesis by (simp only: simp_thms)
qed

end
